theory Spec2Isabelle
  imports Main "HOL-Library.AList"
begin

section \<open>Python values and exceptions\<close>

text \<open>
  The intelligence record handed to a connector is a \<^verbatim>\<open>Dict[str, Any]\<close>. Its values, and
  the payloads built from them, are modelled by the JSON-like values below: \<^verbatim>\<open>None\<close>,
  booleans, unbounded integers, strings, lists and string-keyed dictionaries (an association
  list, in insertion order). Floating-point numbers are left out. A string is a list of
  characters, one per code point, so that \<^verbatim>\<open>len\<close> is \<open>length\<close>.
\<close>

datatype pyval =
    PNone
  | PBool bool
  | PInt int
  | PStr string
  | PList "pyval list"
  | PDict "(string \<times> pyval) list"

text \<open>
  \<open>py_exception\<close> holds instances of \<^verbatim>\<open>Exception\<close>, the class that the
  \<^verbatim>\<open>except Exception\<close> clauses of the source catch: what the code of the adapters and the
  library functions they call raise. (The push of an adapter awaits nothing, so a
  cancellation is never delivered inside it.) \<open>BinasciiError\<close> is \<^verbatim>\<open>binascii.Error\<close>
  (raised by \<^verbatim>\<open>base64.b64decode\<close>), \<open>RequestException\<close> is what the HTTP session raises
  on a transport fault, and \<open>OtherException\<close> stands for any further instance of
  \<^verbatim>\<open>Exception\<close>.
\<close>

datatype py_exception =
    NotImplementedError
  | TypeError
  | IndexError
  | BinasciiError
  | RequestException
  | OtherException string

text \<open>
  What the push of an arbitrary connector object can raise: an instance of
  \<^verbatim>\<open>Exception\<close>, or one of the exceptions that derive from \<^verbatim>\<open>BaseException\<close> and not
  from \<^verbatim>\<open>Exception\<close>: \<^verbatim>\<open>asyncio.CancelledError\<close>, \<^verbatim>\<open>SystemExit\<close>,
  \<^verbatim>\<open>KeyboardInterrupt\<close>, or any other (\<^verbatim>\<open>GeneratorExit\<close>, a class of the caller's).
\<close>

datatype py_base_exception =
    AnException py_exception
  | CancelledError
  | SystemExit
  | KeyboardInterrupt
  | OtherBaseException string

text \<open>\<^verbatim>\<open>isinstance(e, Exception)\<close>.\<close>

fun is_Exception :: "py_base_exception \<Rightarrow> bool" where
  "is_Exception (AnException e) = True"
| "is_Exception e = False"

text \<open>Sequencing of computations that may raise: the first exception wins.\<close>

definition and_then :: "'e + 'a \<Rightarrow> ('a \<Rightarrow> 'e + 'b) \<Rightarrow> 'e + 'b" where
  "and_then m f = (case m of Inl e \<Rightarrow> Inl e | Inr x \<Rightarrow> f x)"

text \<open>
  A number in an arithmetic or ordering context: an \<^verbatim>\<open>int\<close>, or a \<^verbatim>\<open>bool\<close> (a subclass of
  \<^verbatim>\<open>int\<close> with values 0 and 1). Every other value raises \<^verbatim>\<open>TypeError\<close> when compared
  with, or divided by, an integer.
\<close>

fun as_number :: "pyval \<Rightarrow> py_exception + int" where
  "as_number (PInt i) = Inr i"
| "as_number (PBool b) = Inr (if b then 1 else 0)"
| "as_number v = Inl TypeError"

text \<open>\<^verbatim>\<open>x >= n\<close> for an integer literal \<open>n\<close>.\<close>

definition py_ge :: "pyval \<Rightarrow> int \<Rightarrow> py_exception + bool" where
  "py_ge x n = and_then (as_number x) (\<lambda>i. Inr (i \<ge> n))"

text \<open>Truth value of an object, as tested by \<^verbatim>\<open>if x\<close>.\<close>

fun truthy :: "pyval \<Rightarrow> bool" where
  "truthy PNone = False"
| "truthy (PBool b) = b"
| "truthy (PInt i) = (i \<noteq> 0)"
| "truthy (PStr s) = (s \<noteq> [])"
| "truthy (PList xs) = (xs \<noteq> [])"
| "truthy (PDict kvs) = (kvs \<noteq> [])"

text \<open>\<^verbatim>\<open>d.get(key, default)\<close> on the record; \<^verbatim>\<open>d.get(key)\<close> is \<open>dict_get d key PNone\<close>.\<close>

type_synonym intelligence = "string \<rightharpoonup> pyval"

definition dict_get :: "intelligence \<Rightarrow> string \<Rightarrow> pyval \<Rightarrow> pyval" where
  "dict_get d key dflt = (case d key of None \<Rightarrow> dflt | Some v \<Rightarrow> v)"

section \<open>Severity and confidence mappers\<close>

text \<open>\<^verbatim>\<open>SIEMConnector._map_severity\<close>.\<close>

definition map_severity :: "pyval \<Rightarrow> py_exception + string" where
  "map_severity sui_severity =
     and_then (py_ge sui_severity 8) (\<lambda>c8.
       if c8 then Inr ''critical''
       else and_then (py_ge sui_severity 6) (\<lambda>c6.
         if c6 then Inr ''high''
         else and_then (py_ge sui_severity 4) (\<lambda>c4.
           if c4 then Inr ''medium''
           else Inr ''low'')))"

text \<open>\<^verbatim>\<open>SIEMConnector._map_confidence\<close>.\<close>

definition map_confidence :: "pyval \<Rightarrow> py_exception + string" where
  "map_confidence confidence_score =
     and_then (py_ge confidence_score 80) (\<lambda>c80.
       if c80 then Inr ''high''
       else and_then (py_ge confidence_score 60) (\<lambda>c60.
         if c60 then Inr ''medium''
         else Inr ''low''))"

text \<open>
  The qualitative ordering low < medium < high < critical of the levels, as a rank.
  It is only used to state monotonicity.
\<close>

definition level_rank :: "string \<Rightarrow> nat" where
  "level_rank l =
     (if l = ''low'' then 0 else if l = ''medium'' then 1
      else if l = ''high'' then 2 else if l = ''critical'' then 3 else 4)"

definition result_rank :: "py_exception + string \<Rightarrow> nat" where
  "result_rank r = (case r of Inl e \<Rightarrow> 4 | Inr l \<Rightarrow> level_rank l)"

section \<open>Strings\<close>

text \<open>\<^verbatim>\<open>str(n)\<close> for an integer, in decimal.\<close>

fun str_of_nat :: "nat \<Rightarrow> string" where
  "str_of_nat n =
     (if n < 10 then [''0123456789'' ! n]
      else str_of_nat (n div 10) @ [''0123456789'' ! (n mod 10)])"

definition str_of_int :: "int \<Rightarrow> string" where
  "str_of_int i = (if i < 0 then ''-'' @ str_of_nat (nat (- i)) else str_of_nat (nat i))"

text \<open>\<^verbatim>\<open>sep.join(items)\<close> on a list of strings.\<close>

fun join :: "string \<Rightarrow> string list \<Rightarrow> string" where
  "join sep [] = []"
| "join sep [s] = s"
| "join sep (s # t # ss) = s @ sep @ join sep (t # ss)"

text \<open>
  The items that \<^verbatim>\<open>sep.join(x)\<close> iterates over: the elements of a list (each must be a
  \<^verbatim>\<open>str\<close>), the characters of a string, the keys of a dictionary. \<^verbatim>\<open>None\<close>, booleans
  and integers are not iterable.
\<close>

fun strs_of :: "pyval list \<Rightarrow> py_exception + string list" where
  "strs_of [] = Inr []"
| "strs_of (PStr s # xs) = and_then (strs_of xs) (\<lambda>ss. Inr (s # ss))"
| "strs_of (v # xs) = Inl TypeError"

fun join_items :: "pyval \<Rightarrow> py_exception + string list" where
  "join_items (PList xs) = strs_of xs"
| "join_items (PStr s) = Inr (map (\<lambda>c. [c]) s)"
| "join_items (PDict kvs) = Inr (map fst kvs)"
| "join_items v = Inl TypeError"

definition py_join :: "string \<Rightarrow> pyval \<Rightarrow> py_exception + string" where
  "py_join sep x = and_then (join_items x) (\<lambda>ss. Inr (join sep ss))"

section \<open>Configuration, HTTP session and the environment\<close>

datatype SIEMType = SPLUNK | QRADAR | ARCSIGHT | SENTINEL | ELASTIC | GENERIC

record SIEMConfig =
  siem_type :: SIEMType
  endpoint :: string
  api_key :: string
  username :: "string option"
  password :: "string option"
  verify_ssl :: bool
  timeout :: int
  max_retries :: int

text \<open>
  The part of a \<^verbatim>\<open>requests.Session\<close> that the connectors set: certificate verification,
  the session headers, and basic authentication.
\<close>

record http_session =
  verify :: bool
  headers :: "(string \<times> string) list"
  auth :: "(string \<times> string) option"

text \<open>
  One call of \<^verbatim>\<open>session.post\<close> or \<^verbatim>\<open>session.put\<close>: the method, the URL, the
  \<^verbatim>\<open>data\<close> argument, the \<^verbatim>\<open>headers\<close> argument (empty when the call passes none), the
  \<^verbatim>\<open>timeout\<close> argument and the session the call is made on.
\<close>

record http_request =
  req_method :: string
  req_url :: string
  req_data :: string
  req_headers :: "(string \<times> string) list"
  req_timeout :: int
  req_session :: http_session

record http_response =
  status_code :: int
  response_text :: string

text \<open>
  Everything a push takes from outside the module is a field of the environment: the
  clock readings (\<^verbatim>\<open>int(datetime.now().timestamp())\<close>, \<^verbatim>\<open>datetime.now(timezone.utc).isoformat()\<close>
  and the \<^verbatim>\<open>strftime\<close> date of the Sentinel header), the HTTP transport, which answers a
  request with a response or raises, and the library functions \<^verbatim>\<open>json.dumps\<close>,
  \<^verbatim>\<open>repr\<close> (of a list or dictionary), \<^verbatim>\<open>str.encode\<close>, \<^verbatim>\<open>hashlib.sha256(...).hexdigest()\<close>,
  \<^verbatim>\<open>hmac.new(key, msg, hashlib.sha256).digest()\<close>, \<^verbatim>\<open>base64.b64decode\<close> (which raises
  on malformed input) and \<^verbatim>\<open>base64.b64encode\<close>.
\<close>

record env =
  now_timestamp :: int
  now_utc_iso :: string
  now_http_date :: string
  http_send :: "http_request \<Rightarrow> py_exception + http_response"
  json_dumps :: "pyval \<Rightarrow> string"
  py_repr :: "pyval \<Rightarrow> string"
  encode_utf8 :: "string \<Rightarrow> string"
  sha256_hexdigest :: "string \<Rightarrow> string"
  hmac_sha256_digest :: "string \<Rightarrow> string \<Rightarrow> string"
  b64decode :: "string \<Rightarrow> py_exception + string"
  b64encode :: "string \<Rightarrow> string"

text \<open>\<^verbatim>\<open>str(x)\<close>, which is what a replacement field \<^verbatim>\<open>{x}\<close> of an f-string inserts.\<close>

definition py_str :: "env \<Rightarrow> pyval \<Rightarrow> string" where
  "py_str env x =
     (case x of
        PNone \<Rightarrow> ''None''
      | PBool b \<Rightarrow> (if b then ''True'' else ''False'')
      | PInt i \<Rightarrow> str_of_int i
      | PStr s \<Rightarrow> s
      | PList xs \<Rightarrow> py_repr env x
      | PDict kvs \<Rightarrow> py_repr env x)"

definition opt_str :: "string option \<Rightarrow> string" where
  "opt_str x = (case x of None \<Rightarrow> ''None'' | Some s \<Rightarrow> s)"

section \<open>Connectors\<close>

datatype connector_class =
  SIEMConnector | SplunkConnector | QRadarConnector | SentinelConnector | ElasticConnector

text \<open>
  A connector object: its class, its configuration and its session. The Sentinel
  attributes \<^verbatim>\<open>workspace_id\<close> and \<^verbatim>\<open>shared_key\<close> are copies of \<^verbatim>\<open>config.username\<close> and
  \<^verbatim>\<open>config.api_key\<close> made by the constructor and never assigned again, so they are read
  from the configuration.
\<close>

record connector =
  cls :: connector_class
  config :: SIEMConfig
  session :: http_session

text \<open>\<^verbatim>\<open>session.headers.update({...})\<close>.\<close>

definition headers_update :: "(string \<times> string) list \<Rightarrow> http_session \<Rightarrow> http_session" where
  "headers_update kvs s = s\<lparr>headers := fold (\<lambda>(k, v). AList.update k v) kvs (headers s)\<rparr>"

text \<open>\<^verbatim>\<open>SIEMConnector.__init__\<close>.\<close>

definition base_init :: "SIEMConfig \<Rightarrow> http_session" where
  "base_init cfg =
     (let s = \<lparr>verify = verify_ssl cfg, headers = [], auth = None\<rparr>
      in if api_key cfg \<noteq> []
         then headers_update [(''Authorization'', ''Bearer '' @ api_key cfg),
                              (''Content-Type'', ''application/json'')] s
         else s)"

text \<open>The constructor of each class, after \<^verbatim>\<open>super().__init__(config)\<close>.\<close>

definition new_connector :: "connector_class \<Rightarrow> SIEMConfig \<Rightarrow> connector" where
  "new_connector c cfg =
     \<lparr>cls = c, config = cfg,
      session =
        (case c of
           SIEMConnector \<Rightarrow> base_init cfg
         | SplunkConnector \<Rightarrow>
             headers_update [(''Authorization'', ''Splunk '' @ api_key cfg)] (base_init cfg)
         | QRadarConnector \<Rightarrow>
             headers_update [(''SEC'', api_key cfg), (''Version'', ''12.0'')] (base_init cfg)
         | SentinelConnector \<Rightarrow> base_init cfg
         | ElasticConnector \<Rightarrow>
             (case (username cfg, password cfg) of
                (Some u, Some p) \<Rightarrow>
                  if u \<noteq> [] \<and> p \<noteq> [] then (base_init cfg)\<lparr>auth := Some (u, p)\<rparr>
                  else base_init cfg
              | _ \<Rightarrow> base_init cfg))\<rparr>"

text \<open>The factory \<^verbatim>\<open>create_siem_connector\<close> and its lookup table.\<close>

definition connector_map :: "(SIEMType \<times> connector_class) list" where
  "connector_map =
     [(SPLUNK, SplunkConnector),
      (QRADAR, QRadarConnector),
      (SENTINEL, SentinelConnector),
      (ELASTIC, ElasticConnector),
      (GENERIC, SIEMConnector)]"

definition create_siem_connector :: "SIEMType \<Rightarrow> SIEMConfig \<Rightarrow> connector" where
  "create_siem_connector stype cfg =
     (let connector_class =
            (case map_of connector_map stype of None \<Rightarrow> SIEMConnector | Some c \<Rightarrow> c)
      in new_connector connector_class cfg)"

text \<open>A call on the connector's session, with the configured timeout.\<close>

definition session_send ::
  "env \<Rightarrow> connector \<Rightarrow> string \<Rightarrow> string \<Rightarrow> string \<Rightarrow> (string \<times> string) list
     \<Rightarrow> py_exception + http_response" where
  "session_send env c m u body hdrs =
     http_send env \<lparr>req_method = m, req_url = u, req_data = body, req_headers = hdrs,
                    req_timeout = timeout (config c), req_session = session c\<rparr>"

text \<open>What \<^verbatim>\<open>try: ... except Exception: return False\<close> makes of a body.\<close>

definition except_false :: "py_exception + bool \<Rightarrow> py_exception + bool" where
  "except_false body = (case body of Inl e \<Rightarrow> Inr False | Inr b \<Rightarrow> Inr b)"

subsection \<open>The base class\<close>

text \<open>
  \<^verbatim>\<open>SIEMConnector.push_intelligence\<close> raises \<^verbatim>\<open>NotImplementedError\<close> for every record.
\<close>

definition base_push_intelligence :: "env \<Rightarrow> connector \<Rightarrow> intelligence \<Rightarrow> py_exception + bool" where
  "base_push_intelligence env c intelligence_data = Inl NotImplementedError"

subsection \<open>Splunk\<close>

definition splunk_event :: "env \<Rightarrow> intelligence \<Rightarrow> py_exception + pyval" where
  "splunk_event env d =
     and_then (map_severity (dict_get d ''severity'' (PInt 1))) (\<lambda>severity.
     and_then (map_confidence (dict_get d ''confidence_score'' (PInt 0))) (\<lambda>confidence.
     Inr (PDict
       [(''time'', PInt (now_timestamp env)),
        (''source'', PStr ''cti_platform_sui''),
        (''sourcetype'', PStr ''threat_intelligence''),
        (''index'', PStr ''security''),
        (''event'', PDict
          [(''threat_id'', dict_get d ''id'' PNone),
           (''timestamp'', dict_get d ''submission_time'' PNone),
           (''severity'', PStr severity),
           (''threat_type'', dict_get d ''threat_type'' PNone),
           (''confidence'', PStr confidence),
           (''indicators'', PDict
             [(''ioc_hash'', dict_get d ''ioc_hash'' PNone),
              (''stix_pattern'', dict_get d ''stix_pattern'' PNone),
              (''mitre_techniques'', dict_get d ''mitre_techniques'' (PList []))]),
           (''submitter'', dict_get d ''submitter'' PNone),
           (''verified'', dict_get d ''is_verified'' (PBool False)),
           (''validation_count'', dict_get d ''validation_count'' (PInt 0)),
           (''blockchain_source'', PStr ''sui''),
           (''platform'', PStr ''cti_sharing_platform'')])])))"

definition splunk_push_body :: "env \<Rightarrow> connector \<Rightarrow> intelligence \<Rightarrow> py_exception + bool" where
  "splunk_push_body env c d =
     and_then (splunk_event env d) (\<lambda>event.
     and_then (session_send env c ''POST''
                 (endpoint (config c) @ ''/services/collector/event'')
                 (json_dumps env event) []) (\<lambda>response.
     if status_code response = 200 then Inr True else Inr False))"

definition splunk_push_intelligence :: "env \<Rightarrow> connector \<Rightarrow> intelligence \<Rightarrow> py_exception + bool" where
  "splunk_push_intelligence env c d = except_false (splunk_push_body env c d)"

subsection \<open>QRadar\<close>

text \<open>\<^verbatim>\<open>_qradar_severity_mapping\<close>: \<^verbatim>\<open>min(10, max(1, sui_severity))\<close>.\<close>

definition qradar_severity_mapping :: "pyval \<Rightarrow> py_exception + int" where
  "qradar_severity_mapping sui_severity =
     and_then (as_number sui_severity) (\<lambda>i. Inr (min 10 (max 1 i)))"

text \<open>\<^verbatim>\<open>min(10, confidence_score // 10)\<close>, with Python's floor division.\<close>

definition qradar_credibility :: "pyval \<Rightarrow> py_exception + int" where
  "qradar_credibility confidence_score =
     and_then (as_number confidence_score) (\<lambda>i. Inr (min 10 (i div 10)))"

definition qradar_event :: "intelligence \<Rightarrow> py_exception + pyval" where
  "qradar_event d =
     and_then (qradar_severity_mapping (dict_get d ''severity'' (PInt 1))) (\<lambda>severity.
     and_then (qradar_credibility (dict_get d ''confidence_score'' (PInt 0))) (\<lambda>credibility.
     and_then (py_join '','' (dict_get d ''mitre_techniques'' (PList []))) (\<lambda>techniques.
     Inr (PDict
       [(''events'', PList [PDict
          [(''qid'', PInt 99999),
           (''severity'', PInt severity),
           (''credibility'', PInt credibility),
           (''relevance'', PInt (if truthy (dict_get d ''is_verified'' PNone) then 10 else 5)),
           (''properties'', PDict
             [(''threat_type'', dict_get d ''threat_type'' PNone),
              (''ioc_hash'', dict_get d ''ioc_hash'' PNone),
              (''stix_pattern'', dict_get d ''stix_pattern'' PNone),
              (''mitre_techniques'', PStr techniques),
              (''submitter'', dict_get d ''submitter'' PNone),
              (''blockchain_tx'', dict_get d ''transaction_hash'' (PStr [])),
              (''sui_platform'', PStr ''true'')])]])]))))"

definition qradar_push_body :: "env \<Rightarrow> connector \<Rightarrow> intelligence \<Rightarrow> py_exception + bool" where
  "qradar_push_body env c d =
     and_then (qradar_event d) (\<lambda>event.
     and_then (session_send env c ''POST''
                 (endpoint (config c) @ ''/api/siem/events'')
                 (json_dumps env event) []) (\<lambda>response.
     if status_code response \<in> set [200, 201] then Inr True else Inr False))"

definition qradar_push_intelligence :: "env \<Rightarrow> connector \<Rightarrow> intelligence \<Rightarrow> py_exception + bool" where
  "qradar_push_intelligence env c d = except_false (qradar_push_body env c d)"

subsection \<open>Sentinel\<close>

definition sentinel_log_data :: "env \<Rightarrow> intelligence \<Rightarrow> py_exception + pyval" where
  "sentinel_log_data env d =
     and_then (map_severity (dict_get d ''severity'' (PInt 1))) (\<lambda>severity.
     and_then (py_join '','' (dict_get d ''mitre_techniques'' (PList []))) (\<lambda>techniques.
     Inr (PList [PDict
       [(''TimeGenerated'', PStr (now_utc_iso env)),
        (''ThreatType'', dict_get d ''threat_type'' PNone),
        (''Severity'', PStr severity),
        (''ConfidenceScore'', dict_get d ''confidence_score'' (PInt 0)),
        (''IOCHash'', dict_get d ''ioc_hash'' PNone),
        (''STIXPattern'', dict_get d ''stix_pattern'' PNone),
        (''MITRETechniques'', PStr techniques),
        (''Submitter'', dict_get d ''submitter'' PNone),
        (''IsVerified'', dict_get d ''is_verified'' (PBool False)),
        (''ValidationCount'', dict_get d ''validation_count'' (PInt 0)),
        (''BlockchainPlatform'', PStr ''Sui''),
        (''CTIPlatform'', PStr ''SuiCTISharing'')]])))"

text \<open>
  The string that is signed:
  \<^verbatim>\<open>f"POST\n{len(body)}\napplication/json\nx-ms-date:{date}\n/api/logs"\<close>.
\<close>

definition string_to_hash :: "string \<Rightarrow> string \<Rightarrow> string" where
  "string_to_hash body date =
     ''POST\<newline>'' @ str_of_nat (length body) @ ''\<newline>application/json\<newline>x-ms-date:'' @ date
       @ ''\<newline>/api/logs''"

text \<open>\<^verbatim>\<open>SentinelConnector._build_signature\<close>.\<close>

definition build_signature :: "env \<Rightarrow> string \<Rightarrow> string \<Rightarrow> py_exception + string" where
  "build_signature env message secret =
     (let bytes_to_sign = encode_utf8 env message
      in and_then (b64decode env secret) (\<lambda>decoded_key.
         let encoded_hash = b64encode env (hmac_sha256_digest env decoded_key bytes_to_sign)
         in Inr encoded_hash))"

text \<open>The request that a Sentinel push sends, when building it raises nothing.\<close>

definition sentinel_request :: "env \<Rightarrow> connector \<Rightarrow> intelligence \<Rightarrow> py_exception + http_request" where
  "sentinel_request env c d =
     and_then (sentinel_log_data env d) (\<lambda>log_data.
     let body = json_dumps env log_data;
         date = now_http_date env;
         workspace_id = opt_str (username (config c));
         shared_key = api_key (config c)
     in and_then (build_signature env (string_to_hash body date) shared_key) (\<lambda>signature.
        Inr \<lparr>req_method = ''POST'',
             req_url = ''https://'' @ workspace_id
                         @ ''.ods.opinsights.azure.com/api/logs?api-version=2016-04-01'',
             req_data = body,
             req_headers =
               [(''Content-Type'', ''application/json''),
                (''Authorization'', ''SharedKey '' @ workspace_id @ '':'' @ signature),
                (''Log-Type'', ''CTIThreatIntelligence''),
                (''x-ms-date'', date)],
             req_timeout = timeout (config c),
             req_session = session c\<rparr>))"

definition sentinel_push_body :: "env \<Rightarrow> connector \<Rightarrow> intelligence \<Rightarrow> py_exception + bool" where
  "sentinel_push_body env c d =
     and_then (sentinel_request env c d) (\<lambda>request.
     and_then (http_send env request) (\<lambda>response.
     if status_code response = 200 then Inr True else Inr False))"

definition sentinel_push_intelligence :: "env \<Rightarrow> connector \<Rightarrow> intelligence \<Rightarrow> py_exception + bool" where
  "sentinel_push_intelligence env c d = except_false (sentinel_push_body env c d)"

subsection \<open>Elastic\<close>

definition elastic_doc :: "env \<Rightarrow> intelligence \<Rightarrow> py_exception + pyval" where
  "elastic_doc env d =
     and_then (map_confidence (dict_get d ''confidence_score'' (PInt 0))) (\<lambda>confidence.
     and_then (map_severity (dict_get d ''severity'' (PInt 1))) (\<lambda>level.
     Inr (PDict
       [(''@timestamp'', PStr (now_utc_iso env)),
        (''event'', PDict
          [(''kind'', PStr ''enrichment''),
           (''category'', PList [PStr ''threat'']),
           (''type'', PList [PStr ''indicator'']),
           (''dataset'', PStr ''cti.sui_platform'')]),
        (''threat'', PDict
          [(''indicator'', PDict
             [(''type'', dict_get d ''threat_type'' PNone),
              (''confidence'', PStr confidence),
              (''marking'', PDict
                [(''verified'', dict_get d ''is_verified'' (PBool False))])])]),
        (''cti_platform'', PDict
          [(''blockchain'', PStr ''sui''),
           (''submitter'', dict_get d ''submitter'' PNone),
           (''validation_count'', dict_get d ''validation_count'' (PInt 0)),
           (''ioc_hash'', dict_get d ''ioc_hash'' PNone),
           (''stix_pattern'', dict_get d ''stix_pattern'' PNone),
           (''mitre_techniques'', dict_get d ''mitre_techniques'' (PList []))]),
        (''log'', PDict [(''level'', PStr level)])])))"

text \<open>
  The document identifier:
  \<^verbatim>\<open>hashlib.sha256(f"{d.get('ioc_hash', '')}{d.get('submitter', '')}".encode()).hexdigest()\<close>.
\<close>

definition elastic_doc_id :: "env \<Rightarrow> intelligence \<Rightarrow> string" where
  "elastic_doc_id env d =
     sha256_hexdigest env
       (encode_utf8 env
          (py_str env (dict_get d ''ioc_hash'' (PStr [])) @
           py_str env (dict_get d ''submitter'' (PStr []))))"

text \<open>The request that an Elastic push sends, when building the document raises nothing.\<close>

definition elastic_request :: "env \<Rightarrow> connector \<Rightarrow> intelligence \<Rightarrow> py_exception + http_request" where
  "elastic_request env c d =
     and_then (elastic_doc env d) (\<lambda>doc.
     let doc_id = elastic_doc_id env d
     in Inr \<lparr>req_method = ''PUT'',
             req_url = endpoint (config c) @ ''/cti-intelligence/_doc/'' @ doc_id,
             req_data = json_dumps env doc,
             req_headers = [],
             req_timeout = timeout (config c),
             req_session = session c\<rparr>)"

definition elastic_push_body :: "env \<Rightarrow> connector \<Rightarrow> intelligence \<Rightarrow> py_exception + bool" where
  "elastic_push_body env c d =
     and_then (elastic_request env c d) (\<lambda>request.
     and_then (http_send env request) (\<lambda>response.
     if status_code response \<in> set [200, 201] then Inr True else Inr False))"

definition elastic_push_intelligence :: "env \<Rightarrow> connector \<Rightarrow> intelligence \<Rightarrow> py_exception + bool" where
  "elastic_push_intelligence env c d = except_false (elastic_push_body env c d)"

subsection \<open>Method dispatch\<close>

text \<open>\<^verbatim>\<open>connector.push_intelligence(intelligence_data)\<close>, resolved by the object's class.\<close>

definition push_intelligence :: "env \<Rightarrow> connector \<Rightarrow> intelligence \<Rightarrow> py_exception + bool" where
  "push_intelligence env c d =
     (case cls c of
        SIEMConnector \<Rightarrow> base_push_intelligence env c d
      | SplunkConnector \<Rightarrow> splunk_push_intelligence env c d
      | QRadarConnector \<Rightarrow> qradar_push_intelligence env c d
      | SentinelConnector \<Rightarrow> sentinel_push_intelligence env c d
      | ElasticConnector \<Rightarrow> elastic_push_intelligence env c d)"

section \<open>The orchestrator\<close>

text \<open>
  The registry \<^verbatim>\<open>self.connectors\<close> is a dictionary from names to connector objects: an
  association list in insertion order whose keys are distinct. The orchestrator is
  written for any connector type \<open>'c\<close> and record type \<open>'d\<close>, with the method
  \<^verbatim>\<open>push_intelligence\<close> of the objects as the parameter \<open>push\<close>; a push returns a boolean
  or raises, and what it raises need not be an instance of \<^verbatim>\<open>Exception\<close>.
\<close>

definition is_dict :: "('k \<times> 'v) list \<Rightarrow> bool" where
  "is_dict kvs = distinct (map fst kvs)"

definition add_siem_connector :: "string \<Rightarrow> 'c \<Rightarrow> (string \<times> 'c) list \<Rightarrow> (string \<times> 'c) list" where
  "add_siem_connector name connector connectors = AList.update name connector connectors"

definition remove_siem_connector :: "string \<Rightarrow> (string \<times> 'c) list \<Rightarrow> (string \<times> 'c) list" where
  "remove_siem_connector name connectors =
     (if name \<in> set (map fst connectors) then AList.delete name connectors else connectors)"

text \<open>
  \<^verbatim>\<open>CTISIEMIntegration._safe_push_intelligence\<close>. Its \<^verbatim>\<open>except Exception\<close> catches the
  instances of \<^verbatim>\<open>Exception\<close>; anything else that the push raises leaves the coroutine.
\<close>

definition safe_push_intelligence ::
  "('c \<Rightarrow> 'd \<Rightarrow> py_base_exception + bool) \<Rightarrow> string \<Rightarrow> 'c \<Rightarrow> 'd \<Rightarrow> py_base_exception + bool" where
  "safe_push_intelligence push name connector intelligence_data =
     (case push connector intelligence_data of
        Inr b \<Rightarrow> Inr b
      | Inl e \<Rightarrow> if is_Exception e then Inr False else Inl e)"

text \<open>
  The resolution of the targets: the registry itself unless \<^verbatim>\<open>target_siems\<close> is true as a
  condition, that is, a list that is not empty; then the registry entries whose key is in
  the list.
\<close>

definition target_connectors :: "(string \<times> 'c) list \<Rightarrow> string list option \<Rightarrow> (string \<times> 'c) list" where
  "target_connectors connectors target_siems =
     (case target_siems of
        None \<Rightarrow> connectors
      | Some names \<Rightarrow>
          if names \<noteq> [] then filter (\<lambda>(k, v). k \<in> set names) connectors
          else connectors)"

text \<open>
  An element of the list that \<^verbatim>\<open>asyncio.gather\<close> returns, and a value of the result
  map: the boolean that a task returned, or an exception object.
\<close>

datatype outcome = Value bool | ExceptionObject py_base_exception

text \<open>
  A task that raises \<^verbatim>\<open>SystemExit\<close> or \<^verbatim>\<open>KeyboardInterrupt\<close> stops the event loop: the
  exception is raised again out of the task's step and out of the loop, so the coroutine
  that awaits the tasks is never resumed.
\<close>

fun stops_loop :: "py_base_exception \<Rightarrow> bool" where
  "stops_loop SystemExit = True"
| "stops_loop KeyboardInterrupt = True"
| "stops_loop e = False"

text \<open>
  \<^verbatim>\<open>await asyncio.gather(*tasks, return_exceptions=True)\<close>, on what each task returns or
  raises when it runs. The tasks run in the order of their creation. With
  \<^verbatim>\<open>return_exceptions=True\<close> the exception that a task raised, its cancellation included
  (as a \<^verbatim>\<open>CancelledError\<close> object), takes the place of its result in the list.
\<close>

fun gather :: "(py_base_exception + bool) list \<Rightarrow> py_base_exception + outcome list" where
  "gather [] = Inr []"
| "gather (Inr b # tasks) = and_then (gather tasks) (\<lambda>results. Inr (Value b # results))"
| "gather (Inl e # tasks) =
     (if stops_loop e then Inl e
      else and_then (gather tasks) (\<lambda>results. Inr (ExceptionObject e # results)))"

text \<open>
  The loop that compiles the results: \<^verbatim>\<open>push_results[i]\<close> raises \<^verbatim>\<open>IndexError\<close> out of
  range; an element that is an instance of \<^verbatim>\<open>Exception\<close> gives the entry \<open>False\<close>, and
  any other element is itself the entry.
\<close>

fun compile_results ::
  "(nat \<times> string \<times> 'c) list \<Rightarrow> outcome list \<Rightarrow> (string \<times> outcome) list
     \<Rightarrow> py_base_exception + (string \<times> outcome) list" where
  "compile_results [] push_results results = Inr results"
| "compile_results ((i, name, connector) # rest) push_results results =
     (if i < length push_results
      then (case push_results ! i of
              ExceptionObject e \<Rightarrow>
                if is_Exception e
                then compile_results rest push_results (AList.update name (Value False) results)
                else compile_results rest push_results
                       (AList.update name (ExceptionObject e) results)
            | Value result \<Rightarrow>
                compile_results rest push_results (AList.update name (Value result) results))
      else Inl (AnException IndexError))"

text \<open>
  \<^verbatim>\<open>CTISIEMIntegration.broadcast_intelligence\<close>. One task is created per target, in the
  order of the targets.
\<close>

definition broadcast_intelligence ::
  "('c \<Rightarrow> 'd \<Rightarrow> py_base_exception + bool) \<Rightarrow> (string \<times> 'c) list \<Rightarrow> 'd \<Rightarrow> string list option
     \<Rightarrow> py_base_exception + (string \<times> outcome) list" where
  "broadcast_intelligence push connectors intelligence_data target_siems =
     (let targets = target_connectors connectors target_siems;
          tasks =
            map (\<lambda>(name, connector). safe_push_intelligence push name connector intelligence_data)
              targets
      in and_then (gather tasks) (\<lambda>push_results.
           compile_results (List.enumerate 0 targets) push_results []))"

text \<open>
  The counts of the log line:
  \<^verbatim>\<open>sum(1 for success in results.values() if success)\<close> and \<^verbatim>\<open>len(results)\<close>. An exception
  object is true as a condition.
\<close>

fun truth :: "outcome \<Rightarrow> bool" where
  "truth (Value b) = b"
| "truth (ExceptionObject e) = True"

definition success_count :: "(string \<times> outcome) list \<Rightarrow> nat" where
  "success_count results = length (filter (\<lambda>success. truth success) (map snd results))"

definition total_count :: "(string \<times> outcome) list \<Rightarrow> nat" where
  "total_count results = length results"

text \<open>
  A push method that raises nothing but instances of \<^verbatim>\<open>Exception\<close>, as the methods of
  the five connector classes do.
\<close>

definition exceptions_only ::
  "('c \<Rightarrow> 'd \<Rightarrow> py_exception + bool) \<Rightarrow> 'c \<Rightarrow> 'd \<Rightarrow> py_base_exception + bool" where
  "exceptions_only push connector d =
     (case push connector d of Inl e \<Rightarrow> Inl (AnException e) | Inr b \<Rightarrow> Inr b)"

text \<open>
  The entry that the result map gets for a connector whose push does not stop the loop:
  what its push returned, \<open>False\<close> when it raised an instance of \<^verbatim>\<open>Exception\<close>, and
  otherwise the exception object.
\<close>

definition push_entry :: "('c \<Rightarrow> 'd \<Rightarrow> py_base_exception + bool) \<Rightarrow> 'c \<Rightarrow> 'd \<Rightarrow> outcome" where
  "push_entry push connector d =
     (case push connector d of
        Inr b \<Rightarrow> Value b
      | Inl e \<Rightarrow> if is_Exception e then Value False else ExceptionObject e)"

section \<open>Notions used in the statements\<close>

text \<open>The payloads that the four adapters build from a record.\<close>

definition vendor_payloads ::
  "env \<Rightarrow> intelligence \<Rightarrow>
     (py_exception + pyval) \<times> (py_exception + pyval) \<times> (py_exception + pyval) \<times> (py_exception + pyval)" where
  "vendor_payloads env d =
     (splunk_event env d, qradar_event d, sentinel_log_data env d, elastic_doc env d)"

text \<open>
  The environment of another push: other clock readings and another transport, the same
  library functions.
\<close>

definition later :: "env \<Rightarrow> int \<Rightarrow> string \<Rightarrow> string \<Rightarrow> (http_request \<Rightarrow> py_exception + http_response) \<Rightarrow> env" where
  "later env t utc_iso http_date transport =
     env\<lparr>now_timestamp := t, now_utc_iso := utc_iso, now_http_date := http_date,
         http_send := transport\<rparr>"

text \<open>
  None of the targets has a push that raises \<^verbatim>\<open>SystemExit\<close> or \<^verbatim>\<open>KeyboardInterrupt\<close>
  on the record.
\<close>

definition no_stop :: "('c \<Rightarrow> 'd \<Rightarrow> py_base_exception + bool) \<Rightarrow> 'd \<Rightarrow> (string \<times> 'c) list \<Rightarrow> bool" where
  "no_stop push d targets =
     list_all (\<lambda>(name, c). case push c d of Inl e \<Rightarrow> \<not> stops_loop e | Inr b \<Rightarrow> True) targets"

section \<open>Test doubles\<close>

text \<open>
  A connector that is nothing but its scripted behaviour: its push returns the scripted
  boolean or raises the scripted exception, whatever the record.
\<close>

definition scripted_push :: "('e + bool) \<Rightarrow> unit \<Rightarrow> 'e + bool" where
  "scripted_push behaviour d = behaviour"

text \<open>
  An environment whose transport answers every request with the given status code; the
  library functions are stand-ins.
\<close>

definition stub_env :: "int \<Rightarrow> env" where
  "stub_env status =
     \<lparr>now_timestamp = 1700000000,
      now_utc_iso = ''2023-11-14T22:13:20+00:00'',
      now_http_date = ''Tue, 14 Nov 2023 22:13:20 GMT'',
      http_send = (\<lambda>request. Inr \<lparr>status_code = status, response_text = []\<rparr>),
      json_dumps = (\<lambda>v. ''{}''),
      py_repr = (\<lambda>v. ''[]''),
      encode_utf8 = (\<lambda>s. s),
      sha256_hexdigest = (\<lambda>s. s),
      hmac_sha256_digest = (\<lambda>key msg. key @ msg),
      b64decode = (\<lambda>s. Inr s),
      b64encode = (\<lambda>s. s)\<rparr>"

text \<open>
  A configuration, and the sample record of \<^verbatim>\<open>example_integration\<close> without its
  \<open>submission_time\<close> and \<open>stix_pattern\<close> fields.
\<close>

definition sample_config :: "SIEMType \<Rightarrow> SIEMConfig" where
  "sample_config t =
     \<lparr>siem_type = t, endpoint = ''https://siem.company.com'', api_key = ''your-key-here'',
      username = Some ''your-workspace-id'', password = None, verify_ssl = True,
      timeout = 30, max_retries = 3\<rparr>"

definition sample_intelligence :: intelligence where
  "sample_intelligence =
     [''id'' \<mapsto> PStr ''cti_001'',
      ''threat_type'' \<mapsto> PStr ''malware'',
      ''severity'' \<mapsto> PInt 8,
      ''confidence_score'' \<mapsto> PInt 85,
      ''is_verified'' \<mapsto> PBool True,
      ''ioc_hash'' \<mapsto> PStr ''abc123def456'',
      ''mitre_techniques'' \<mapsto> PList [PStr ''T1055'', PStr ''T1003''],
      ''submitter'' \<mapsto> PStr ''0x123...abc'',
      ''validation_count'' \<mapsto> PInt 3]"

text \<open>An environment whose transport answers by the URL of the request.\<close>

definition url_env :: "(string \<Rightarrow> int) \<Rightarrow> env" where
  "url_env status_of =
     (stub_env 200)\<lparr>http_send :=
        (\<lambda>request. Inr \<lparr>status_code = status_of (req_url request), response_text = []\<rparr>)\<rparr>"

text \<open>
  Two Splunk connectors with different endpoints, and an environment in which the
  endpoint of the first answers 200 and every other URL answers 500.
\<close>

definition connector_a :: connector where
  "connector_a = create_siem_connector SPLUNK ((sample_config SPLUNK)\<lparr>endpoint := ''https://a''\<rparr>)"

definition connector_b :: connector where
  "connector_b = create_siem_connector SPLUNK ((sample_config SPLUNK)\<lparr>endpoint := ''https://b''\<rparr>)"

definition a_accepts :: env where
  "a_accepts =
     url_env (\<lambda>url. if url = ''https://a/services/collector/event'' then 200 else 500)"

section \<open>Properties of the mappers\<close>

lemma map_severity_int:
  "map_severity (PInt s) =
     Inr (if s \<ge> 8 then ''critical'' else if s \<ge> 6 then ''high''
          else if s \<ge> 4 then ''medium'' else ''low'')"
  by (simp add: map_severity_def py_ge_def and_then_def)

lemma map_confidence_int:
  "map_confidence (PInt c) =
     Inr (if c \<ge> 80 then ''high'' else if c \<ge> 60 then ''medium'' else ''low'')"
  by (simp add: map_confidence_def py_ge_def and_then_def)

text \<open>
  C4. On an integer score the severity mapper returns a level and never raises; for a
  score from 1 to 10 the level is low for 1-3, medium for 4-5, high for 6-7 and critical
  for 8-10; and a larger score never gets a lower level in the ordering
  low < medium < high < critical.
\<close>

theorem map_severity_bands:
  "(\<exists>l \<in> {''low'', ''medium'', ''high'', ''critical''}. map_severity (PInt s) = Inr l) \<and>
   (1 \<le> s \<and> s \<le> 3 \<longrightarrow> map_severity (PInt s) = Inr ''low'') \<and>
   (4 \<le> s \<and> s \<le> 5 \<longrightarrow> map_severity (PInt s) = Inr ''medium'') \<and>
   (6 \<le> s \<and> s \<le> 7 \<longrightarrow> map_severity (PInt s) = Inr ''high'') \<and>
   (8 \<le> s \<and> s \<le> 10 \<longrightarrow> map_severity (PInt s) = Inr ''critical'') \<and>
   (s \<le> t \<longrightarrow> result_rank (map_severity (PInt s)) \<le> result_rank (map_severity (PInt t)))"
  by (simp add: map_severity_int result_rank_def level_rank_def)

theorem map_severity_bands_witness:
  "map_severity (PInt 2) = Inr ''low'' \<and> map_severity (PInt 5) = Inr ''medium'' \<and>
   map_severity (PInt 6) = Inr ''high'' \<and> map_severity (PInt 10) = Inr ''critical'' \<and>
   result_rank (map_severity (PInt 5)) \<le> result_rank (map_severity (PInt 6))"
  using map_severity_bands [of 2 2] map_severity_bands [of 5 6]
        map_severity_bands [of 6 6] map_severity_bands [of 10 10]
  by (simp add: result_rank_def level_rank_def)

text \<open>
  C5. On an integer score the confidence mapper returns a level and never raises; for a
  score from 0 to 100 the level is low for 0-59, medium for 60-79 and high for 80-100.
\<close>

theorem map_confidence_bands:
  "(\<exists>l \<in> {''low'', ''medium'', ''high''}. map_confidence (PInt c) = Inr l) \<and>
   (0 \<le> c \<and> c \<le> 59 \<longrightarrow> map_confidence (PInt c) = Inr ''low'') \<and>
   (60 \<le> c \<and> c \<le> 79 \<longrightarrow> map_confidence (PInt c) = Inr ''medium'') \<and>
   (80 \<le> c \<and> c \<le> 100 \<longrightarrow> map_confidence (PInt c) = Inr ''high'')"
  by (simp add: map_confidence_int)

theorem map_confidence_bands_witness:
  "map_confidence (PInt 0) = Inr ''low'' \<and> map_confidence (PInt 59) = Inr ''low'' \<and>
   map_confidence (PInt 60) = Inr ''medium'' \<and> map_confidence (PInt 79) = Inr ''medium'' \<and>
   map_confidence (PInt 80) = Inr ''high'' \<and> map_confidence (PInt 100) = Inr ''high''"
  using map_confidence_bands [of 0] map_confidence_bands [of 59] map_confidence_bands [of 60]
        map_confidence_bands [of 79] map_confidence_bands [of 80] map_confidence_bands [of 100]
  by simp

section \<open>Properties of the orchestrator\<close>

lemma update_fresh_append:
  "k \<notin> fst ` set al \<Longrightarrow> AList.update k v al = al @ [(k, v)]"
  by (induction al) auto

text \<open>The tasks of a broadcast, and the loop over what they gave.\<close>

lemma stops_loop_not_Exception: "stops_loop e \<Longrightarrow> \<not> is_Exception e"
  by (cases e) simp_all

lemma entry_not_Exception: "push_entry push c d = ExceptionObject e \<Longrightarrow> \<not> is_Exception e"
  by (auto simp: push_entry_def split: sum.splits if_splits)

lemma safe_push_returns:
  "push c d = Inr b \<Longrightarrow> safe_push_intelligence push name c d = Inr b"
  by (simp add: safe_push_intelligence_def)

lemma safe_push_raises:
  "push c d = Inl e \<Longrightarrow>
   safe_push_intelligence push name c d = (if is_Exception e then Inr False else Inl e)"
  by (simp add: safe_push_intelligence_def)

lemma gather_tasks:
  "no_stop push d targets \<Longrightarrow>
   gather (map (\<lambda>(name, c). safe_push_intelligence push name c d) targets)
     = Inr (map (\<lambda>(name, c). push_entry push c d) targets)"
proof (induction targets)
  case Nil
  then show ?case by simp
next
  case (Cons x xs)
  obtain name c where x: "x = (name, c)" by (cases x)
  have rest: "gather (map (\<lambda>(name, c). safe_push_intelligence push name c d) xs)
      = Inr (map (\<lambda>(name, c). push_entry push c d) xs)"
    using Cons by (simp add: no_stop_def)
  show ?case
  proof (cases "push c d")
    case (Inr b)
    then show ?thesis
      by (simp add: x rest safe_push_returns and_then_def push_entry_def)
  next
    case (Inl e)
    have "\<not> stops_loop e" using Cons.prems Inl by (simp add: no_stop_def x)
    then show ?thesis
      using Inl by (simp add: x rest safe_push_raises and_then_def push_entry_def)
  qed
qed

lemma gather_stops:
  "\<not> no_stop push d targets \<Longrightarrow>
   \<exists>e. stops_loop e \<and>
     gather (map (\<lambda>(name, c). safe_push_intelligence push name c d) targets) = Inl e"
proof (induction targets)
  case Nil
  then show ?case by (simp add: no_stop_def)
next
  case (Cons x xs)
  obtain name c where x: "x = (name, c)" by (cases x)
  show ?case
  proof (cases "push c d")
    case (Inr b)
    then have "\<not> no_stop push d xs" using Cons.prems by (simp add: no_stop_def x)
    then obtain e where "stops_loop e"
      "gather (map (\<lambda>(name, c). safe_push_intelligence push name c d) xs) = Inl e"
      using Cons.IH by auto
    then show ?thesis using Inr by (auto simp: x safe_push_returns and_then_def)
  next
    case (Inl e)
    show ?thesis
    proof (cases "stops_loop e")
      case True
      then show ?thesis
        using Inl stops_loop_not_Exception [OF True] by (auto simp: x safe_push_raises)
    next
      case False
      then have "\<not> no_stop push d xs" using Cons.prems Inl by (simp add: no_stop_def x)
      then obtain e' where "stops_loop e'"
        "gather (map (\<lambda>(name, c). safe_push_intelligence push name c d) xs) = Inl e'"
        using Cons.IH by auto
      then show ?thesis using Inl False by (auto simp: x safe_push_raises and_then_def)
    qed
  qed
qed

lemma compile_results_gathered:
  "length ps = n \<Longrightarrow>
   compile_results (List.enumerate n xs) (ps @ map (\<lambda>(name, c). push_entry push c d) xs) acc
   = Inr (fold (\<lambda>(name, c). AList.update name (push_entry push c d)) xs acc)"
proof (induction xs arbitrary: n ps acc)
  case Nil
  then show ?case by simp
next
  case (Cons x xs)
  obtain name c where x: "x = (name, c)" by (cases x)
  let ?g = "\<lambda>(name, c). push_entry push c d"
  have step: "ps @ map ?g (x # xs) = (ps @ [?g x]) @ map ?g xs" by simp
  have len: "length (ps @ [?g x]) = Suc n" using Cons.prems by simp
  have nth: "(ps @ map ?g (x # xs)) ! n = push_entry push c d"
    using Cons.prems by (simp add: x nth_append)
  have "compile_results (List.enumerate n (x # xs)) (ps @ map ?g (x # xs)) acc
        = compile_results (List.enumerate (Suc n) xs) (ps @ map ?g (x # xs))
            (AList.update name (push_entry push c d) acc)"
  proof (cases "push_entry push c d")
    case (Value b)
    then show ?thesis using Cons.prems nth by (simp add: x)
  next
    case (ExceptionObject e)
    then have "\<not> is_Exception e" by (rule entry_not_Exception)
    then show ?thesis using Cons.prems nth ExceptionObject by (simp add: x)
  qed
  also have "\<dots> = Inr (fold (\<lambda>(name, c). AList.update name (push_entry push c d)) xs
                        (AList.update name (push_entry push c d) acc))"
    unfolding step by (rule Cons.IH [OF len])
  finally show ?case by (simp add: x)
qed

lemma broadcast_fold:
  "no_stop push d (target_connectors connectors ts) \<Longrightarrow>
   broadcast_intelligence push connectors d ts =
     Inr (fold (\<lambda>(name, c). AList.update name (push_entry push c d))
            (target_connectors connectors ts) [])"
  using compile_results_gathered [of "[]" 0 "target_connectors connectors ts" push d "[]"]
  by (simp add: broadcast_intelligence_def Let_def gather_tasks and_then_def)

lemma broadcast_stops:
  "\<not> no_stop push d (target_connectors connectors ts) \<Longrightarrow>
   \<exists>e. stops_loop e \<and> broadcast_intelligence push connectors d ts = Inl e"
  using gather_stops [of push d "target_connectors connectors ts"]
  by (auto simp: broadcast_intelligence_def Let_def and_then_def)

lemma fold_update_distinct:
  "distinct (map fst xs) \<Longrightarrow> fst ` set xs \<inter> fst ` set acc = {} \<Longrightarrow>
   fold (\<lambda>(name, c). AList.update name (f c)) xs acc = acc @ map (\<lambda>(name, c). (name, f c)) xs"
proof (induction xs arbitrary: acc)
  case Nil
  then show ?case by simp
next
  case (Cons x xs)
  obtain name c where x: "x = (name, c)" by (cases x)
  have fresh: "name \<notin> fst ` set acc" using Cons.prems(2) by (auto simp: x)
  have d: "distinct (map fst xs)" using Cons.prems(1) by simp
  have disj: "fst ` set xs \<inter> fst ` set (acc @ [(name, f c)]) = {}"
    using Cons.prems by (auto simp: x)
  show ?case
    using Cons.IH [OF d disj] by (simp add: x update_fresh_append [OF fresh])
qed

lemma length_fold_update:
  "length (fold (\<lambda>(name, c). AList.update name (f c)) xs acc) \<le> length acc + length xs"
proof (induction xs arbitrary: acc)
  case Nil
  then show ?case by simp
next
  case (Cons x xs)
  obtain name c where x: "x = (name, c)" by (cases x)
  have "length (AList.update name (f c) acc) \<le> Suc (length acc)"
    by (induction acc) auto
  with Cons.IH [of "AList.update name (f c) acc"] show ?case by (simp add: x)
qed

lemma is_dict_targets:
  "is_dict connectors \<Longrightarrow> is_dict (target_connectors connectors ts)"
  by (auto simp: is_dict_def target_connectors_def distinct_map_filter split: option.splits)

lemma broadcast_map:
  "is_dict connectors \<Longrightarrow> no_stop push d (target_connectors connectors ts) \<Longrightarrow>
   broadcast_intelligence push connectors d ts =
     Inr (map (\<lambda>(name, c). (name, push_entry push c d)) (target_connectors connectors ts))"
  using is_dict_targets [of connectors ts]
  by (simp add: broadcast_fold is_dict_def fold_update_distinct)

lemma length_targets: "length (target_connectors connectors ts) \<le> length connectors"
  by (simp add: target_connectors_def split: option.splits)

lemma map_of_entries:
  "distinct (map fst xs) \<Longrightarrow> (name, c) \<in> set xs \<Longrightarrow>
   map_of (map (\<lambda>(name, c). (name, f c)) xs) name = Some (f c)"
  by (induction xs) (auto simp: rev_image_eqI)

lemma keys_entries: "map fst (map (\<lambda>(name, c). (name, f c)) xs) = map fst xs"
  by (induction xs) auto

text \<open>A push that raises nothing but instances of \<^verbatim>\<open>Exception\<close> never stops the loop.\<close>

lemma no_stop_exceptions_only: "no_stop (exceptions_only push) d targets"
  by (induction targets) (auto simp: no_stop_def exceptions_only_def split: sum.splits)

lemma push_entry_exceptions_only:
  "push_entry (exceptions_only push) c d = Value (case push c d of Inl e \<Rightarrow> False | Inr b \<Rightarrow> b)"
  by (cases "push c d") (simp_all add: push_entry_def exceptions_only_def)

lemma broadcast_exceptions_only:
  "is_dict connectors \<Longrightarrow>
   broadcast_intelligence (exceptions_only push) connectors d ts =
     Inr (map (\<lambda>(name, c). (name, Value (case push c d of Inl e \<Rightarrow> False | Inr b \<Rightarrow> b)))
            (target_connectors connectors ts))"
  by (simp add: broadcast_map no_stop_exceptions_only push_entry_exceptions_only)

text \<open>
  C1, as stated, fails for a push that raises an exception that is not an instance of
  \<^verbatim>\<open>Exception\<close>. When the push of \<open>b\<close> raises \<^verbatim>\<open>CancelledError\<close>, the entry of \<open>b\<close> is
  the exception object, not \<open>False\<close>, and it counts as a success. When it raises
  \<^verbatim>\<open>SystemExit\<close>, the broadcast raises and returns no map.
\<close>

theorem broadcast_base_exception_counterexample:
  "broadcast_intelligence scripted_push [(''a'', Inr True), (''b'', Inl CancelledError)] () None
     = Inr [(''a'', Value True), (''b'', ExceptionObject CancelledError)] \<and>
   success_count [(''a'', Value True), (''b'', ExceptionObject CancelledError)] = 2 \<and>
   broadcast_intelligence scripted_push [(''a'', Inr True), (''b'', Inl SystemExit)] () None
     = Inl SystemExit"
  by (simp add: broadcast_intelligence_def target_connectors_def safe_push_intelligence_def
      scripted_push_def and_then_def success_count_def)

text \<open>
  C1, amended. For every record, registry and target list, when the pushes raise nothing
  but instances of \<^verbatim>\<open>Exception\<close>, the broadcast returns a result map and never raises.
  The map has exactly one entry for each targeted connector, in the order of the targets:
  \<open>False\<close> when that connector's push raised or returned \<open>False\<close>, \<open>True\<close> when it
  returned \<open>True\<close>. The entry of a connector depends on its own push only: whatever the
  pushes of the other connectors do, raise included, it is the same.
\<close>

theorem broadcast_isolates_faults:
  assumes "is_dict connectors"
  shows "\<exists>results.
           broadcast_intelligence (exceptions_only push) connectors d ts = Inr results \<and>
           is_dict results \<and>
           map fst results = map fst (target_connectors connectors ts) \<and>
           (\<forall>(name, c) \<in> set (target_connectors connectors ts).
              map_of results name =
                Some (Value (case push c d of Inl e \<Rightarrow> False | Inr b \<Rightarrow> b))) \<and>
           (\<forall>(name, c) \<in> set (target_connectors connectors ts). \<forall>push'.
              push' c d = push c d \<longrightarrow>
              (\<exists>results'.
                 broadcast_intelligence (exceptions_only push') connectors d ts = Inr results' \<and>
                 map_of results' name = map_of results name))"
proof -
  let ?targets = "target_connectors connectors ts"
  let ?entry = "\<lambda>p c. Value (case p c d of Inl e \<Rightarrow> False | Inr b \<Rightarrow> b)"
  let ?results = "\<lambda>p. map (\<lambda>(name, c). (name, ?entry p c)) ?targets"
  have dict: "is_dict ?targets" using assms by (rule is_dict_targets)
  have run: "broadcast_intelligence (exceptions_only p) connectors d ts = Inr (?results p)" for p
    using assms by (rule broadcast_exceptions_only)
  have keys: "map fst (?results p) = map fst ?targets" for p
    by (rule keys_entries)
  have entry: "map_of (?results p) name = Some (?entry p c)"
    if "(name, c) \<in> set ?targets" for p name c
    using dict that unfolding is_dict_def by (rule map_of_entries)
  have same: "map_of (?results p') name = map_of (?results push) name"
    if "(name, c) \<in> set ?targets" "p' c d = push c d" for p' name c
    using entry [OF that(1), of p'] entry [OF that(1), of push] that(2) by simp
  show ?thesis
  proof (intro exI conjI)
    show "broadcast_intelligence (exceptions_only push) connectors d ts = Inr (?results push)"
      by (rule run)
    show "is_dict (?results push)" using dict unfolding is_dict_def keys .
    show "map fst (?results push) = map fst ?targets" by (rule keys)
    show "\<forall>(name, c) \<in> set ?targets.
            map_of (?results push) name
              = Some (Value (case push c d of Inl e \<Rightarrow> False | Inr b \<Rightarrow> b))"
      using entry [of _ _ push] by auto
    show "\<forall>(name, c) \<in> set ?targets. \<forall>push'. push' c d = push c d \<longrightarrow>
            (\<exists>results'.
               broadcast_intelligence (exceptions_only push') connectors d ts = Inr results' \<and>
               map_of results' name = map_of (?results push) name)"
      using run same by blast
  qed
qed

theorem broadcast_isolates_faults_witness:
  "is_dict [(''a'', Inr True), (''b'', Inl (OtherException ''fault'')), (''c'', Inr False)] \<and>
   (\<exists>results.
      broadcast_intelligence (exceptions_only scripted_push)
        [(''a'', Inr True), (''b'', Inl (OtherException ''fault'')), (''c'', Inr False)] () None
        = Inr results \<and>
      map fst results = [''a'', ''b'', ''c''] \<and>
      map_of results ''a'' = Some (Value True) \<and>
      map_of results ''b'' = Some (Value False) \<and>
      map_of results ''c'' = Some (Value False))"
proof -
  let ?reg = "[(''a'', Inr True), (''b'', Inl (OtherException ''fault'')), (''c'', Inr False)]"
  have h: "is_dict ?reg" by (simp add: is_dict_def)
  obtain results where
    r: "broadcast_intelligence (exceptions_only scripted_push) ?reg () None = Inr results"
    and k: "map fst results = map fst (target_connectors ?reg None)"
    and e: "\<forall>(name, c) \<in> set (target_connectors ?reg None).
              map_of results name =
                Some (Value (case scripted_push c () of Inl e \<Rightarrow> False | Inr b \<Rightarrow> b))"
    using broadcast_isolates_faults [OF h, of scripted_push "()" None] by blast
  from k have k': "map fst results = [''a'', ''b'', ''c'']"
    by (simp add: target_connectors_def)
  from e have e': "map_of results ''a'' = Some (Value True) \<and>
      map_of results ''b'' = Some (Value False) \<and> map_of results ''c'' = Some (Value False)"
    by (simp add: target_connectors_def scripted_push_def)
  show ?thesis
  proof (intro conjI exI [where x = results])
    show "is_dict ?reg" by (rule h)
    show "broadcast_intelligence (exceptions_only scripted_push) ?reg () None = Inr results"
      by (rule r)
    show "map fst results = [''a'', ''b'', ''c'']" by (rule k')
    show "map_of results ''a'' = Some (Value True)" using e' by simp
    show "map_of results ''b'' = Some (Value False)" using e' by simp
    show "map_of results ''c'' = Some (Value False)" using e' by simp
  qed
qed

lemma keys_targets:
  "map fst (target_connectors connectors ts) =
     (case ts of None \<Rightarrow> map fst connectors
      | Some names \<Rightarrow> if names = [] then map fst connectors
                      else filter (\<lambda>k. k \<in> set names) (map fst connectors))"
  by (induction connectors) (auto simp: target_connectors_def split: option.splits)

text \<open>
  C2, as stated, fails when the target list is provided but empty: the registry entry
  \<open>a\<close> is targeted and is in the returned map, although it is not in the provided list.
\<close>

theorem broadcast_empty_target_list_counterexample:
  "broadcast_intelligence (exceptions_only scripted_push) [(''a'', Inr True)] () (Some [])
     = Inr [(''a'', Value True)]
   \<and> ''a'' \<notin> set ([] :: string list)"
  by (simp add: broadcast_exceptions_only is_dict_def target_connectors_def scripted_push_def)

text \<open>
  C2, amended. When the target list is omitted or is the empty list, the broadcast targets
  every connector of the registry. When it is a list that is not empty, the broadcast
  targets exactly the registry entries whose name is in the list, in registry order; names
  that are not in the registry are ignored and nothing is raised, and the names of the
  returned map are exactly those that are both in the registry and in the list.
\<close>

theorem broadcast_target_resolution:
  assumes "is_dict connectors"
  shows "\<exists>results.
           broadcast_intelligence (exceptions_only push) connectors d ts = Inr results \<and>
           (case ts of
              None \<Rightarrow> map fst results = map fst connectors
            | Some names \<Rightarrow>
                if names = [] then map fst results = map fst connectors
                else map fst results = filter (\<lambda>k. k \<in> set names) (map fst connectors) \<and>
                     set (map fst results) = set (map fst connectors) \<inter> set names)"
proof -
  let ?results = "map (\<lambda>(name, c). (name, Value (case push c d of Inl e \<Rightarrow> False | Inr b \<Rightarrow> b)))
                    (target_connectors connectors ts)"
  have run: "broadcast_intelligence (exceptions_only push) connectors d ts = Inr ?results"
    using assms by (rule broadcast_exceptions_only)
  have keys: "map fst ?results = map fst (target_connectors connectors ts)"
    by (rule keys_entries)
  have "case ts of
          None \<Rightarrow> map fst ?results = map fst connectors
        | Some names \<Rightarrow>
            if names = [] then map fst ?results = map fst connectors
            else map fst ?results = filter (\<lambda>k. k \<in> set names) (map fst connectors) \<and>
                 set (map fst ?results) = set (map fst connectors) \<inter> set names"
    unfolding keys keys_targets by (auto split: option.splits)
  with run show ?thesis
    by (intro exI [where x = ?results] conjI)
qed

theorem broadcast_target_resolution_witness:
  "is_dict ([(''a'', Inr True), (''b'', Inr False)] :: (string \<times> (py_exception + bool)) list) \<and>
   (\<exists>results.
      broadcast_intelligence (exceptions_only scripted_push)
        [(''a'', Inr True), (''b'', Inr False)] ()
        (Some [''b'', ''unknown'']) = Inr results \<and>
      map fst results = [''b''])"
proof -
  let ?reg = "[(''a'', Inr True), (''b'', Inr False)] :: (string \<times> (py_exception + bool)) list"
  let ?P = "\<lambda>results.
      broadcast_intelligence (exceptions_only scripted_push) ?reg () (Some [''b'', ''unknown''])
        = Inr results \<and>
      map fst results = filter (\<lambda>k. k \<in> set [''b'', ''unknown'']) (map fst ?reg) \<and>
      set (map fst results) = set (map fst ?reg) \<inter> set [''b'', ''unknown'']"
  have h: "is_dict ?reg" by (simp add: is_dict_def)
  have "\<exists>results. ?P results"
    using broadcast_target_resolution [OF h, of scripted_push "()" "Some [''b'', ''unknown'']"]
    by simp
  then obtain results where p: "?P results" ..
  show ?thesis
  proof (intro conjI exI [where x = results])
    show "is_dict ?reg" by (rule h)
    show "broadcast_intelligence (exceptions_only scripted_push) ?reg ()
        (Some [''b'', ''unknown'']) = Inr results"
      using p by (rule conjunct1)
    show "map fst results = [''b'']" using p by simp
  qed
qed

lemma success_le_total: "success_count results \<le> total_count results"
  by (simp add: success_count_def total_count_def order_trans [OF length_filter_le])

text \<open>
  Whatever the pushes raise, a broadcast that returns has counts within the bounds.
\<close>

lemma broadcast_counts_any_push:
  "broadcast_intelligence push connectors d ts = Inr results \<Longrightarrow>
   success_count results \<le> total_count results \<and> total_count results \<le> length connectors"
proof -
  assume r: "broadcast_intelligence push connectors d ts = Inr results"
  let ?targets = "target_connectors connectors ts"
  have "no_stop push d ?targets"
  proof (rule ccontr)
    assume "\<not> no_stop push d ?targets"
    then obtain e where "broadcast_intelligence push connectors d ts = Inl e"
      using broadcast_stops [of push d connectors ts] by auto
    with r show False by simp
  qed
  then have "results = fold (\<lambda>(name, c). AList.update name (push_entry push c d)) ?targets []"
    using r by (simp add: broadcast_fold)
  then have "length results \<le> length ?targets"
    using length_fold_update [of "\<lambda>c. push_entry push c d" ?targets "[]"] by simp
  then have "total_count results \<le> length connectors"
    using length_targets [of connectors ts] by (simp add: total_count_def)
  then show ?thesis using success_le_total by blast
qed

text \<open>
  C3. Every broadcast whose pushes raise nothing but instances of \<^verbatim>\<open>Exception\<close> returns
  a result map whose success count is at most its total count, which is at most the size
  of the registry; with an empty registry the map is empty and both counts are zero. And
  whatever the pushes raise, the counts of a broadcast that returns are within these
  bounds.
\<close>

theorem broadcast_counts:
  "(\<exists>results.
      broadcast_intelligence (exceptions_only push) connectors d ts = Inr results \<and>
      success_count results \<le> total_count results \<and>
      total_count results \<le> length connectors) \<and>
   broadcast_intelligence push' [] d ts = Inr [] \<and>
   total_count [] = 0 \<and> success_count [] = 0 \<and>
   (broadcast_intelligence push' connectors d ts = Inr results' \<longrightarrow>
      success_count results' \<le> total_count results' \<and>
      total_count results' \<le> length connectors)"
proof -
  let ?results = "fold (\<lambda>(name, c). AList.update name (push_entry (exceptions_only push) c d))
                    (target_connectors connectors ts) []"
  have run: "broadcast_intelligence (exceptions_only push) connectors d ts = Inr ?results"
    by (simp add: broadcast_fold no_stop_exceptions_only)
  have first: "\<exists>results.
      broadcast_intelligence (exceptions_only push) connectors d ts = Inr results \<and>
      success_count results \<le> total_count results \<and>
      total_count results \<le> length connectors"
    using broadcast_counts_any_push [OF run]
    by (intro exI [where x = ?results] conjI run) simp_all
  have "no_stop push' d (target_connectors [] ts)"
    by (simp add: no_stop_def target_connectors_def split: option.splits)
  then have empty: "broadcast_intelligence push' [] d ts = Inr []"
    by (simp add: broadcast_fold) (simp add: target_connectors_def split: option.splits)
  have any: "broadcast_intelligence push' connectors d ts = Inr results' \<longrightarrow>
      success_count results' \<le> total_count results' \<and>
      total_count results' \<le> length connectors"
    by (rule impI) (rule broadcast_counts_any_push)
  show ?thesis using first empty any by (simp add: total_count_def success_count_def)
qed

theorem broadcast_counts_witness:
  "broadcast_intelligence scripted_push [(''a'', Inr True), (''b'', Inl CancelledError)] () None
     = Inr [(''a'', Value True), (''b'', ExceptionObject CancelledError)] \<and>
   success_count [(''a'', Value True), (''b'', ExceptionObject CancelledError)]
     \<le> total_count [(''a'', Value True), (''b'', ExceptionObject CancelledError)] \<and>
   total_count [(''a'', Value True), (''b'', ExceptionObject CancelledError)]
     \<le> length [(''a'', Inr True), (''b'', Inl CancelledError)]"
proof -
  let ?reg = "[(''a'', Inr True), (''b'', Inl CancelledError)]"
  let ?results = "[(''a'', Value True), (''b'', ExceptionObject CancelledError)]"
  have run: "broadcast_intelligence scripted_push ?reg () None = Inr ?results"
    by (simp add: broadcast_intelligence_def target_connectors_def safe_push_intelligence_def
        scripted_push_def and_then_def)
  note t = broadcast_counts [where push' = scripted_push and connectors = ?reg and d = "()"
      and ts = None and results' = ?results]
  have "success_count ?results \<le> total_count ?results \<and> total_count ?results \<le> length ?reg"
    using t [THEN conjunct2, THEN conjunct2, THEN conjunct2, THEN conjunct2] run by (rule mp)
  with run show ?thesis by (rule conjI)
qed

text \<open>
  C9. A broadcast with the empty list as targets is the broadcast with the targets
  omitted: the whole registry is targeted.
\<close>

theorem empty_target_list_is_all:
  "target_connectors connectors (Some []) = connectors \<and>
   target_connectors connectors None = connectors \<and>
   broadcast_intelligence push connectors d (Some []) =
     broadcast_intelligence push connectors d None"
  by (simp add: broadcast_intelligence_def target_connectors_def)

section \<open>Properties of the connectors\<close>

lemma base_push_raises:
  "cls c = SIEMConnector \<Longrightarrow> push_intelligence env c d = Inl NotImplementedError"
  by (simp add: push_intelligence_def base_push_intelligence_def)

lemma cls_create:
  "cls (create_siem_connector stype cfg) =
     (case map_of connector_map stype of None \<Rightarrow> SIEMConnector | Some k \<Rightarrow> k)"
  by (simp add: create_siem_connector_def new_connector_def Let_def)

lemma unmapped_kind: "map_of connector_map stype = None \<longleftrightarrow> stype = ARCSIGHT"
  by (cases stype) (simp_all add: connector_map_def)

text \<open>
  C8. The push of a connector of the base class raises \<^verbatim>\<open>NotImplementedError\<close> for every
  record and never succeeds; the factory returns a connector of the base class for every
  kind that is not in its lookup table (and for the kind \<open>GENERIC\<close>, which is in the table);
  and when such a connector is targeted by a broadcast, its entry in the result map is
  \<open>False\<close>.
\<close>

theorem fallback_connector_not_implemented:
  "(cls c = SIEMConnector \<longrightarrow> push_intelligence env c d = Inl NotImplementedError) \<and>
   (map_of connector_map stype = None \<longrightarrow>
      cls (create_siem_connector stype cfg) = SIEMConnector \<and>
      push_intelligence env (create_siem_connector stype cfg) d = Inl NotImplementedError) \<and>
   cls (create_siem_connector GENERIC cfg) = SIEMConnector \<and>
   (is_dict connectors \<and> (name, c) \<in> set (target_connectors connectors ts) \<and>
    cls c = SIEMConnector \<longrightarrow>
      (\<exists>results.
         broadcast_intelligence (exceptions_only (push_intelligence env)) connectors d ts
           = Inr results \<and>
         map_of results name = Some (Value False)))"
proof (intro conjI impI)
  show "push_intelligence env c d = Inl NotImplementedError" if "cls c = SIEMConnector"
    using that by (rule base_push_raises)
  show "cls (create_siem_connector stype cfg) = SIEMConnector"
    if "map_of connector_map stype = None"
    using that by (simp add: cls_create)
  then show "push_intelligence env (create_siem_connector stype cfg) d = Inl NotImplementedError"
    if "map_of connector_map stype = None"
    using that by (simp add: base_push_raises)
  show "cls (create_siem_connector GENERIC cfg) = SIEMConnector"
    by (simp add: cls_create connector_map_def)
  show "\<exists>results.
          broadcast_intelligence (exceptions_only (push_intelligence env)) connectors d ts
            = Inr results \<and>
          map_of results name = Some (Value False)"
    if h: "is_dict connectors \<and> (name, c) \<in> set (target_connectors connectors ts) \<and>
           cls c = SIEMConnector"
  proof -
    let ?targets = "target_connectors connectors ts"
    let ?entry = "\<lambda>c. Value (case push_intelligence env c d of Inl e \<Rightarrow> False | Inr b \<Rightarrow> b)"
    let ?results = "map (\<lambda>(name, c). (name, ?entry c)) ?targets"
    have run: "broadcast_intelligence (exceptions_only (push_intelligence env)) connectors d ts
        = Inr ?results"
      using h by (simp add: broadcast_exceptions_only)
    have dict: "distinct (map fst ?targets)"
      using h is_dict_targets [of connectors ts] by (simp add: is_dict_def)
    have mem: "(name, c) \<in> set ?targets" using h by simp
    have "map_of ?results name = Some (?entry c)"
      using dict mem by (rule map_of_entries)
    then have entry: "map_of ?results name = Some (Value False)"
      using h by (simp add: base_push_raises)
    show ?thesis
      by (intro exI [where x = ?results] conjI run entry)
  qed
qed

theorem fallback_connector_not_implemented_witness:
  "map_of connector_map ARCSIGHT = None \<and>
   (cls (create_siem_connector ARCSIGHT (sample_config ARCSIGHT)) = SIEMConnector \<and>
    push_intelligence (stub_env 200) (create_siem_connector ARCSIGHT (sample_config ARCSIGHT))
      sample_intelligence = Inl NotImplementedError) \<and>
   is_dict [(''arcsight'', create_siem_connector ARCSIGHT (sample_config ARCSIGHT))] \<and>
   (\<exists>results.
      broadcast_intelligence (exceptions_only (push_intelligence (stub_env 200)))
        [(''arcsight'', create_siem_connector ARCSIGHT (sample_config ARCSIGHT))]
        sample_intelligence None = Inr results \<and>
      map_of results ''arcsight'' = Some (Value False))"
proof -
  let ?c = "create_siem_connector ARCSIGHT (sample_config ARCSIGHT)"
  let ?reg = "[(''arcsight'', ?c)]"
  note t = fallback_connector_not_implemented
    [where c = ?c and env = "stub_env 200" and d = sample_intelligence and stype = ARCSIGHT
       and cfg = "sample_config ARCSIGHT" and connectors = ?reg and name = "''arcsight''"
       and ts = None]
  have unmapped: "map_of connector_map ARCSIGHT = None"
    by (simp add: connector_map_def)
  have fallback: "cls ?c = SIEMConnector \<and>
      push_intelligence (stub_env 200) ?c sample_intelligence = Inl NotImplementedError"
    using t [THEN conjunct2, THEN conjunct1] unmapped by (rule mp)
  have dict: "is_dict ?reg" by (simp add: is_dict_def)
  have mem: "(''arcsight'', ?c) \<in> set (target_connectors ?reg None)"
    by (simp add: target_connectors_def)
  have hyp: "is_dict ?reg \<and> (''arcsight'', ?c) \<in> set (target_connectors ?reg None) \<and>
      cls ?c = SIEMConnector"
    by (intro conjI dict mem fallback [THEN conjunct1])
  have entry: "\<exists>results.
      broadcast_intelligence (exceptions_only (push_intelligence (stub_env 200))) ?reg
        sample_intelligence None = Inr results \<and>
      map_of results ''arcsight'' = Some (Value False)"
    using t [THEN conjunct2, THEN conjunct2, THEN conjunct2] hyp by (rule mp)
  show ?thesis
    by (intro conjI unmapped fallback [THEN conjunct1] fallback [THEN conjunct2] dict entry)
qed

lemma py_str_later [simp]: "py_str (later env t u h s) x = py_str env x"
  by (simp add: py_str_def later_def split: pyval.splits)

lemma elastic_doc_id_later: "elastic_doc_id (later env t u h s) d = elastic_doc_id env d"
  by (simp add: elastic_doc_id_def) (simp add: later_def)

lemma elastic_doc_id_fields:
  "d1 ''ioc_hash'' = d2 ''ioc_hash'' \<Longrightarrow> d1 ''submitter'' = d2 ''submitter'' \<Longrightarrow>
   elastic_doc_id env d1 = elastic_doc_id env d2"
  by (simp add: elastic_doc_id_def dict_get_def)

lemma elastic_request_url:
  "elastic_request env c d = Inr r \<Longrightarrow>
   req_url r = endpoint (config c) @ ''/cti-intelligence/_doc/'' @ elastic_doc_id env d"
  by (auto simp: elastic_request_def and_then_def Let_def split: sum.splits)

lemma elastic_request_returns:
  "elastic_doc env d = Inr doc \<Longrightarrow> \<exists>r. elastic_request env c d = Inr r"
  by (simp add: elastic_request_def and_then_def Let_def)

lemma elastic_doc_numeric:
  "d ''severity'' = Some (PInt sev) \<Longrightarrow> d ''confidence_score'' = Some (PInt conf) \<Longrightarrow>
   \<exists>doc. elastic_doc env d = Inr doc"
  by (simp add: elastic_doc_def dict_get_def map_severity_int map_confidence_int and_then_def)

text \<open>
  C6. The document identifier of the Elastic adapter is the SHA-256 hex digest of the
  encoded concatenation of the record's \<open>ioc_hash\<close> and \<open>submitter\<close>. Two records with
  the same \<open>ioc_hash\<close> and the same \<open>submitter\<close> get the same identifier, whatever their
  other fields, and whatever the time and the transport of the two pushes; the URLs of
  the two requests are the same.
\<close>

theorem elastic_doc_id_stable:
  assumes "d1 ''ioc_hash'' = d2 ''ioc_hash''" and "d1 ''submitter'' = d2 ''submitter''"
  shows "elastic_doc_id (later env t u h s) d2 = elastic_doc_id env d1 \<and>
         (d1 ''ioc_hash'' = Some (PStr ioc) \<and> d1 ''submitter'' = Some (PStr sub) \<longrightarrow>
            elastic_doc_id env d1 = sha256_hexdigest env (encode_utf8 env (ioc @ sub))) \<and>
         (elastic_request env c d1 = Inr r1 \<and>
          elastic_request (later env t u h s) c d2 = Inr r2 \<longrightarrow>
            req_url r1 = endpoint (config c) @ ''/cti-intelligence/_doc/'' @ elastic_doc_id env d1 \<and>
            req_url r2 = req_url r1)"
proof (intro conjI impI)
  show same: "elastic_doc_id (later env t u h s) d2 = elastic_doc_id env d1"
    unfolding elastic_doc_id_later using assms by (rule elastic_doc_id_fields [symmetric])
  show "elastic_doc_id env d1 = sha256_hexdigest env (encode_utf8 env (ioc @ sub))"
    if "d1 ''ioc_hash'' = Some (PStr ioc) \<and> d1 ''submitter'' = Some (PStr sub)"
    using that by (simp add: elastic_doc_id_def dict_get_def py_str_def)
  show "req_url r1 = endpoint (config c) @ ''/cti-intelligence/_doc/'' @ elastic_doc_id env d1"
    if "elastic_request env c d1 = Inr r1 \<and> elastic_request (later env t u h s) c d2 = Inr r2"
    using that [THEN conjunct1] by (rule elastic_request_url)
  show "req_url r2 = req_url r1"
    if "elastic_request env c d1 = Inr r1 \<and> elastic_request (later env t u h s) c d2 = Inr r2"
  proof -
    have "req_url r1 = endpoint (config c) @ ''/cti-intelligence/_doc/'' @ elastic_doc_id env d1"
      using that [THEN conjunct1] by (rule elastic_request_url)
    moreover have "req_url r2 = endpoint (config c) @ ''/cti-intelligence/_doc/''
        @ elastic_doc_id (later env t u h s) d2"
      using that [THEN conjunct2] by (rule elastic_request_url)
    ultimately show ?thesis by (simp only: same)
  qed
qed

theorem elastic_doc_id_stable_witness:
  "(sample_intelligence ''ioc_hash'' = (sample_intelligence(''severity'' \<mapsto> PInt 3)) ''ioc_hash'' \<and>
    sample_intelligence ''submitter'' = (sample_intelligence(''severity'' \<mapsto> PInt 3)) ''submitter'') \<and>
   elastic_doc_id (later (stub_env 200) 1700000600 [] [] (\<lambda>request. Inl RequestException))
     (sample_intelligence(''severity'' \<mapsto> PInt 3))
     = elastic_doc_id (stub_env 200) sample_intelligence \<and>
   elastic_doc_id (stub_env 200) sample_intelligence
     = sha256_hexdigest (stub_env 200)
         (encode_utf8 (stub_env 200) (''abc123def456'' @ ''0x123...abc'')) \<and>
   (\<exists>r1 r2.
      elastic_request (stub_env 200) (create_siem_connector ELASTIC (sample_config ELASTIC))
        sample_intelligence = Inr r1 \<and>
      elastic_request (later (stub_env 200) 1700000600 [] [] (\<lambda>request. Inl RequestException))
        (create_siem_connector ELASTIC (sample_config ELASTIC))
        (sample_intelligence(''severity'' \<mapsto> PInt 3)) = Inr r2 \<and>
      req_url r2 = req_url r1)"
proof -
  let ?env = "stub_env 200"
  let ?env' = "later (stub_env 200) 1700000600 [] [] (\<lambda>request. Inl RequestException)"
  let ?c = "create_siem_connector ELASTIC (sample_config ELASTIC)"
  let ?d1 = "sample_intelligence"
  let ?d2 = "sample_intelligence(''severity'' \<mapsto> PInt 3)"
  have i: "?d1 ''ioc_hash'' = ?d2 ''ioc_hash''" by simp
  have s: "?d1 ''submitter'' = ?d2 ''submitter''" by simp
  have strs: "?d1 ''ioc_hash'' = Some (PStr ''abc123def456'') \<and>
      ?d1 ''submitter'' = Some (PStr ''0x123...abc'')"
    by (simp add: sample_intelligence_def)
  have "\<exists>doc. elastic_doc ?env ?d1 = Inr doc"
    by (rule elastic_doc_numeric [where sev = 8 and conf = 85])
       (simp_all add: sample_intelligence_def)
  then obtain doc1 where "elastic_doc ?env ?d1 = Inr doc1" ..
  then have "\<exists>r. elastic_request ?env ?c ?d1 = Inr r" by (rule elastic_request_returns)
  then obtain r1 where r1: "elastic_request ?env ?c ?d1 = Inr r1" ..
  have "\<exists>doc. elastic_doc ?env' ?d2 = Inr doc"
    by (rule elastic_doc_numeric [where sev = 3 and conf = 85])
       (simp_all add: sample_intelligence_def)
  then obtain doc2 where "elastic_doc ?env' ?d2 = Inr doc2" ..
  then have "\<exists>r. elastic_request ?env' ?c ?d2 = Inr r" by (rule elastic_request_returns)
  then obtain r2 where r2: "elastic_request ?env' ?c ?d2 = Inr r2" ..
  note t = elastic_doc_id_stable [OF i s, where env = ?env and t = 1700000600 and u = "[]"
      and h = "[]" and s = "\<lambda>request. Inl RequestException" and ioc = "''abc123def456''"
      and sub = "''0x123...abc''" and c = ?c and ?r1.0 = r1 and ?r2.0 = r2]
  have both: "elastic_request ?env ?c ?d1 = Inr r1 \<and> elastic_request ?env' ?c ?d2 = Inr r2"
    using r1 r2 by (rule conjI)
  have id2: "elastic_doc_id ?env ?d1
      = sha256_hexdigest ?env (encode_utf8 ?env (''abc123def456'' @ ''0x123...abc''))"
    using t [THEN conjunct2, THEN conjunct1] strs by (rule mp)
  have urls: "req_url r2 = req_url r1"
    using t [THEN conjunct2, THEN conjunct2, THEN mp, OF both] by (rule conjunct2)
  have ex: "\<exists>r1 r2. elastic_request ?env ?c ?d1 = Inr r1 \<and>
      elastic_request ?env' ?c ?d2 = Inr r2 \<and> req_url r2 = req_url r1"
    by (intro exI [where x = r1] exI [where x = r2] conjI r1 r2 urls)
  show ?thesis
    by (intro conjI i s t [THEN conjunct1] id2 ex)
qed

lemma string_to_hash_join:
  "string_to_hash body date =
     join ''\<newline>'' [''POST'', str_of_nat (length body), ''application/json'',
                 ''x-ms-date:'' @ date, ''/api/logs'']"
  by (simp add: string_to_hash_def)

lemma build_signature_later:
  "build_signature (later env t u h s) message secret = build_signature env message secret"
  by (simp add: build_signature_def later_def)

lemma sentinel_request_headers:
  assumes "sentinel_request env c d = Inr r"
  shows "\<exists>signature.
           build_signature env (string_to_hash (req_data r) (now_http_date env))
             (api_key (config c)) = Inr signature \<and>
           map_of (req_headers r) ''Authorization''
             = Some (''SharedKey '' @ opt_str (username (config c)) @ '':'' @ signature) \<and>
           map_of (req_headers r) ''x-ms-date'' = Some (now_http_date env) \<and>
           req_method r = ''POST''"
proof -
  obtain log_data where l: "sentinel_log_data env d = Inr log_data"
    using assms by (cases "sentinel_log_data env d") (simp_all add: sentinel_request_def and_then_def)
  let ?body = "json_dumps env log_data"
  obtain signature where
    sg: "build_signature env (string_to_hash ?body (now_http_date env)) (api_key (config c))
           = Inr signature"
    using assms l
    by (cases "build_signature env (string_to_hash ?body (now_http_date env)) (api_key (config c))")
       (simp_all add: sentinel_request_def and_then_def Let_def)
  have r: "r = \<lparr>req_method = ''POST'',
             req_url = ''https://'' @ opt_str (username (config c))
                         @ ''.ods.opinsights.azure.com/api/logs?api-version=2016-04-01'',
             req_data = ?body,
             req_headers =
               [(''Content-Type'', ''application/json''),
                (''Authorization'', ''SharedKey '' @ opt_str (username (config c)) @ '':'' @ signature),
                (''Log-Type'', ''CTIThreatIntelligence''),
                (''x-ms-date'', now_http_date env)],
             req_timeout = timeout (config c),
             req_session = session c\<rparr>"
    using assms l sg by (simp add: sentinel_request_def and_then_def Let_def)
  show ?thesis
    by (rule exI [where x = signature]) (simp add: r sg)
qed

lemma sentinel_request_returns:
  "sentinel_log_data env d = Inr log_data \<Longrightarrow> b64decode env (api_key (config c)) = Inr key \<Longrightarrow>
   \<exists>r. sentinel_request env c d = Inr r"
  by (simp add: sentinel_request_def build_signature_def and_then_def Let_def)

lemma sentinel_log_data_sample:
  "\<exists>log_data. sentinel_log_data env sample_intelligence = Inr log_data"
  by (simp add: sentinel_log_data_def sample_intelligence_def dict_get_def map_severity_int
      py_join_def and_then_def)

text \<open>
  C7, as stated, fails: the fourth line of the signed string is not the value of the
  \<^verbatim>\<open>x-ms-date\<close> header alone.
\<close>

theorem sentinel_canonical_string_counterexample:
  "string_to_hash ''[]'' ''Tue, 14 Nov 2023 22:13:20 GMT'' \<noteq>
     join ''\<newline>'' [''POST'', str_of_nat (length ''[]''), ''application/json'',
                 ''Tue, 14 Nov 2023 22:13:20 GMT'', ''/api/logs'']"
  by (simp add: string_to_hash_def)

text \<open>
  C7, amended. The signed string is the method \<^verbatim>\<open>POST\<close>, the length of the body, the
  content type \<^verbatim>\<open>application/json\<close>, the text \<^verbatim>\<open>x-ms-date:\<close> followed by the value of
  the \<^verbatim>\<open>x-ms-date\<close> header, and the resource path \<^verbatim>\<open>/api/logs\<close>, joined by newlines.
  The signature is the base64 encoding of the HMAC-SHA256 digest, keyed by the
  base64-decoded secret, of the encoded message; a secret that does not decode raises. It
  depends on the secret and the message only, not on the time of the computation nor on
  the transport. The request of a Sentinel push carries, as \<^verbatim>\<open>Authorization\<close>,
  \<^verbatim>\<open>SharedKey\<close>, the workspace identifier and the signature of the string built from its
  own body and its own \<^verbatim>\<open>x-ms-date\<close> header.
\<close>

theorem sentinel_signature:
  "string_to_hash body date =
     join ''\<newline>'' [''POST'', str_of_nat (length body), ''application/json'',
                 ''x-ms-date:'' @ date, ''/api/logs''] \<and>
   (b64decode env secret = Inr key \<longrightarrow>
      build_signature env message secret
        = Inr (b64encode env (hmac_sha256_digest env key (encode_utf8 env message)))) \<and>
   (b64decode env secret = Inl e \<longrightarrow> build_signature env message secret = Inl e) \<and>
   build_signature (later env t u h s) message secret = build_signature env message secret \<and>
   (sentinel_request env c d = Inr r \<longrightarrow>
      (\<exists>signature.
         build_signature env (string_to_hash (req_data r) (now_http_date env))
           (api_key (config c)) = Inr signature \<and>
         map_of (req_headers r) ''Authorization''
           = Some (''SharedKey '' @ opt_str (username (config c)) @ '':'' @ signature) \<and>
         map_of (req_headers r) ''x-ms-date'' = Some (now_http_date env) \<and>
         req_method r = ''POST''))"
proof (intro conjI impI)
  show "string_to_hash body date =
     join ''\<newline>'' [''POST'', str_of_nat (length body), ''application/json'',
                 ''x-ms-date:'' @ date, ''/api/logs'']"
    by (rule string_to_hash_join)
  show "build_signature env message secret
        = Inr (b64encode env (hmac_sha256_digest env key (encode_utf8 env message)))"
    if "b64decode env secret = Inr key"
    using that by (simp add: build_signature_def and_then_def)
  show "build_signature env message secret = Inl e" if "b64decode env secret = Inl e"
    using that by (simp add: build_signature_def and_then_def)
  show "build_signature (later env t u h s) message secret = build_signature env message secret"
    by (rule build_signature_later)
  show "\<exists>signature.
         build_signature env (string_to_hash (req_data r) (now_http_date env))
           (api_key (config c)) = Inr signature \<and>
         map_of (req_headers r) ''Authorization''
           = Some (''SharedKey '' @ opt_str (username (config c)) @ '':'' @ signature) \<and>
         map_of (req_headers r) ''x-ms-date'' = Some (now_http_date env) \<and>
         req_method r = ''POST''"
    if "sentinel_request env c d = Inr r"
    using that by (rule sentinel_request_headers)
qed

theorem sentinel_signature_witness:
  "(b64decode (stub_env 200) ''your-key-here'' = Inr ''your-key-here'' \<and>
    build_signature (stub_env 200) (string_to_hash ''[]'' ''Tue, 14 Nov 2023 22:13:20 GMT'')
      ''your-key-here''
      = Inr (b64encode (stub_env 200)
               (hmac_sha256_digest (stub_env 200) ''your-key-here''
                  (encode_utf8 (stub_env 200)
                     (string_to_hash ''[]'' ''Tue, 14 Nov 2023 22:13:20 GMT''))))) \<and>
   (b64decode ((stub_env 200)\<lparr>b64decode := \<lambda>secret. Inl BinasciiError\<rparr>) ''not base64''
      = Inl BinasciiError \<and>
    build_signature ((stub_env 200)\<lparr>b64decode := \<lambda>secret. Inl BinasciiError\<rparr>)
      (string_to_hash ''[]'' ''Tue, 14 Nov 2023 22:13:20 GMT'') ''not base64''
      = Inl BinasciiError) \<and>
   (\<exists>r signature.
      sentinel_request (stub_env 200) (create_siem_connector SENTINEL (sample_config SENTINEL))
        sample_intelligence = Inr r \<and>
      build_signature (stub_env 200)
        (string_to_hash (req_data r) (now_http_date (stub_env 200))) ''your-key-here''
        = Inr signature \<and>
      map_of (req_headers r) ''Authorization''
        = Some (''SharedKey your-workspace-id:'' @ signature))"
proof -
  let ?env = "stub_env 200"
  let ?bad = "(stub_env 200)\<lparr>b64decode := \<lambda>secret. Inl BinasciiError\<rparr>"
  let ?c = "create_siem_connector SENTINEL (sample_config SENTINEL)"
  let ?msg = "string_to_hash ''[]'' ''Tue, 14 Nov 2023 22:13:20 GMT''"
  have key: "api_key (config ?c) = ''your-key-here''"
    by (simp add: create_siem_connector_def new_connector_def sample_config_def Let_def)
  have ws: "opt_str (username (config ?c)) = ''your-workspace-id''"
    by (simp add: create_siem_connector_def new_connector_def sample_config_def Let_def opt_str_def)
  have dec: "b64decode ?env ''your-key-here'' = Inr ''your-key-here''"
    by (simp add: stub_env_def)
  have bad: "b64decode ?bad ''not base64'' = Inl BinasciiError"
    by simp
  obtain log_data where "sentinel_log_data ?env sample_intelligence = Inr log_data"
    using sentinel_log_data_sample [of ?env] ..
  then have "\<exists>r. sentinel_request ?env ?c sample_intelligence = Inr r"
    using dec unfolding key [symmetric] by (rule sentinel_request_returns)
  then obtain r where r: "sentinel_request ?env ?c sample_intelligence = Inr r" ..
  note t = sentinel_signature [where env = ?env and secret = "''your-key-here''"
      and key = "''your-key-here''" and message = ?msg and c = ?c
      and d = sample_intelligence and r = r]
  note t' = sentinel_signature [where env = ?bad and secret = "''not base64''"
      and e = BinasciiError and message = ?msg]
  have sig: "build_signature ?env ?msg ''your-key-here''
      = Inr (b64encode ?env (hmac_sha256_digest ?env ''your-key-here'' (encode_utf8 ?env ?msg)))"
    using t [THEN conjunct2, THEN conjunct1] dec by (rule mp)
  have fails: "build_signature ?bad ?msg ''not base64'' = Inl BinasciiError"
    using t' [THEN conjunct2, THEN conjunct2, THEN conjunct1] bad by (rule mp)
  have "\<exists>signature.
      build_signature ?env (string_to_hash (req_data r) (now_http_date ?env))
        (api_key (config ?c)) = Inr signature \<and>
      map_of (req_headers r) ''Authorization''
        = Some (''SharedKey '' @ opt_str (username (config ?c)) @ '':'' @ signature) \<and>
      map_of (req_headers r) ''x-ms-date'' = Some (now_http_date ?env) \<and>
      req_method r = ''POST''"
    using t [THEN conjunct2, THEN conjunct2, THEN conjunct2, THEN conjunct2] r by (rule mp)
  then obtain signature where
    s: "build_signature ?env (string_to_hash (req_data r) (now_http_date ?env))
          (api_key (config ?c)) = Inr signature \<and>
        map_of (req_headers r) ''Authorization''
          = Some (''SharedKey '' @ opt_str (username (config ?c)) @ '':'' @ signature) \<and>
        map_of (req_headers r) ''x-ms-date'' = Some (now_http_date ?env) \<and>
        req_method r = ''POST''" ..
  have s1: "build_signature ?env (string_to_hash (req_data r) (now_http_date ?env))
      ''your-key-here'' = Inr signature"
    using s [THEN conjunct1] by (simp only: key)
  have s2: "map_of (req_headers r) ''Authorization''
      = Some (''SharedKey your-workspace-id:'' @ signature)"
    using s [THEN conjunct2, THEN conjunct1] by (simp add: ws)
  have ex: "\<exists>r signature.
      sentinel_request ?env ?c sample_intelligence = Inr r \<and>
      build_signature ?env (string_to_hash (req_data r) (now_http_date ?env)) ''your-key-here''
        = Inr signature \<and>
      map_of (req_headers r) ''Authorization''
        = Some (''SharedKey your-workspace-id:'' @ signature)"
    by (intro exI [where x = r] exI [where x = signature] conjI r s1 s2)
  show ?thesis
    by (intro conjI dec sig bad fails ex)
qed

section \<open>Records with missing fields\<close>

lemma dict_get_missing: "d k = None \<Longrightarrow> dict_get d k x = x"
  by (simp add: dict_get_def)

lemma dict_get_upd: "dict_get (d(k \<mapsto> v)) k' x = (if k' = k then v else dict_get d k' x)"
  by (simp add: dict_get_def)

lemmas payload_defs =
  vendor_payloads_def splunk_event_def qradar_event_def sentinel_log_data_def elastic_doc_def

lemma severity_default:
  "d ''severity'' = None \<Longrightarrow>
   vendor_payloads env (d(''severity'' \<mapsto> PInt 1)) = vendor_payloads env d"
  by (simp add: payload_defs dict_get_upd dict_get_missing)

lemma confidence_default:
  "d ''confidence_score'' = None \<Longrightarrow>
   vendor_payloads env (d(''confidence_score'' \<mapsto> PInt 0)) = vendor_payloads env d"
  by (simp add: payload_defs dict_get_upd dict_get_missing)

lemma techniques_default:
  "d ''mitre_techniques'' = None \<Longrightarrow>
   vendor_payloads env (d(''mitre_techniques'' \<mapsto> PList [])) = vendor_payloads env d"
  by (simp add: payload_defs dict_get_upd dict_get_missing)

lemma verified_default:
  "d ''is_verified'' = None \<Longrightarrow>
   vendor_payloads env (d(''is_verified'' \<mapsto> PBool False)) = vendor_payloads env d"
  by (simp add: payload_defs dict_get_upd dict_get_missing)

lemma validation_count_default:
  "d ''validation_count'' = None \<Longrightarrow>
   vendor_payloads env (d(''validation_count'' \<mapsto> PInt 0)) = vendor_payloads env d"
  by (simp add: payload_defs dict_get_upd dict_get_missing)

lemma payloads_built:
  "d ''severity'' = None \<Longrightarrow> d ''confidence_score'' = None \<Longrightarrow>
   d ''mitre_techniques'' = None \<Longrightarrow>
   \<exists>s q l e. vendor_payloads env d = (Inr s, Inr q, Inr l, Inr e)"
  by (simp add: payload_defs dict_get_missing map_severity_int map_confidence_int
      qradar_severity_mapping_def qradar_credibility_def py_join_def and_then_def)

lemma except_false_returns: "\<exists>b. except_false body = Inr b"
  by (cases body) (auto simp: except_false_def)

lemma adapters_never_raise:
  "cls c \<noteq> SIEMConnector \<Longrightarrow> \<exists>b. push_intelligence env c d = Inr b"
  by (cases "cls c")
     (simp_all add: push_intelligence_def splunk_push_intelligence_def
        qradar_push_intelligence_def sentinel_push_intelligence_def
        elastic_push_intelligence_def except_false_returns)

text \<open>
  C10. Reading a field that the record does not have never raises. In the payload of
  every adapter a missing \<open>severity\<close> counts as 1, a missing \<open>confidence_score\<close> as 0, a
  missing \<open>mitre_techniques\<close> as the empty list, a missing \<open>is_verified\<close> as
  \<open>False\<close> and a missing \<open>validation_count\<close> as 0: the payloads are those of the record
  with the default filled in. When \<open>severity\<close>, \<open>confidence_score\<close> and
  \<open>mitre_techniques\<close> are missing, all four payloads are built; and the push of an
  adapter returns a boolean for every record.
\<close>

theorem missing_fields_take_defaults:
  "(d ''severity'' = None \<longrightarrow>
      vendor_payloads env d = vendor_payloads env (d(''severity'' \<mapsto> PInt 1))) \<and>
   (d ''confidence_score'' = None \<longrightarrow>
      vendor_payloads env d = vendor_payloads env (d(''confidence_score'' \<mapsto> PInt 0))) \<and>
   (d ''mitre_techniques'' = None \<longrightarrow>
      vendor_payloads env d = vendor_payloads env (d(''mitre_techniques'' \<mapsto> PList []))) \<and>
   (d ''is_verified'' = None \<longrightarrow>
      vendor_payloads env d = vendor_payloads env (d(''is_verified'' \<mapsto> PBool False))) \<and>
   (d ''validation_count'' = None \<longrightarrow>
      vendor_payloads env d = vendor_payloads env (d(''validation_count'' \<mapsto> PInt 0))) \<and>
   (d ''severity'' = None \<and> d ''confidence_score'' = None \<and> d ''mitre_techniques'' = None \<longrightarrow>
      (\<exists>s q l e. vendor_payloads env d = (Inr s, Inr q, Inr l, Inr e))) \<and>
   (cls c \<noteq> SIEMConnector \<longrightarrow> (\<exists>b. push_intelligence env c d = Inr b))"
proof (intro conjI impI)
  show "vendor_payloads env d = vendor_payloads env (d(''severity'' \<mapsto> PInt 1))"
    if "d ''severity'' = None"
    using that by (rule severity_default [symmetric])
  show "vendor_payloads env d = vendor_payloads env (d(''confidence_score'' \<mapsto> PInt 0))"
    if "d ''confidence_score'' = None"
    using that by (rule confidence_default [symmetric])
  show "vendor_payloads env d = vendor_payloads env (d(''mitre_techniques'' \<mapsto> PList []))"
    if "d ''mitre_techniques'' = None"
    using that by (rule techniques_default [symmetric])
  show "vendor_payloads env d = vendor_payloads env (d(''is_verified'' \<mapsto> PBool False))"
    if "d ''is_verified'' = None"
    using that by (rule verified_default [symmetric])
  show "vendor_payloads env d = vendor_payloads env (d(''validation_count'' \<mapsto> PInt 0))"
    if "d ''validation_count'' = None"
    using that by (rule validation_count_default [symmetric])
  show "\<exists>s q l e. vendor_payloads env d = (Inr s, Inr q, Inr l, Inr e)"
    if "d ''severity'' = None \<and> d ''confidence_score'' = None \<and> d ''mitre_techniques'' = None"
    using that by (simp add: payloads_built)
  show "\<exists>b. push_intelligence env c d = Inr b" if "cls c \<noteq> SIEMConnector"
    using that by (rule adapters_never_raise)
qed

theorem missing_fields_take_defaults_witness:
  "([''threat_type'' \<mapsto> PStr ''malware''] ''severity'' = None \<and>
    vendor_payloads (stub_env 200) [''threat_type'' \<mapsto> PStr ''malware'']
      = vendor_payloads (stub_env 200)
          [''threat_type'' \<mapsto> PStr ''malware'', ''severity'' \<mapsto> PInt 1]) \<and>
   ([''threat_type'' \<mapsto> PStr ''malware''] ''confidence_score'' = None \<and>
    vendor_payloads (stub_env 200) [''threat_type'' \<mapsto> PStr ''malware'']
      = vendor_payloads (stub_env 200)
          [''threat_type'' \<mapsto> PStr ''malware'', ''confidence_score'' \<mapsto> PInt 0]) \<and>
   ([''threat_type'' \<mapsto> PStr ''malware''] ''mitre_techniques'' = None \<and>
    vendor_payloads (stub_env 200) [''threat_type'' \<mapsto> PStr ''malware'']
      = vendor_payloads (stub_env 200)
          [''threat_type'' \<mapsto> PStr ''malware'', ''mitre_techniques'' \<mapsto> PList []]) \<and>
   ([''threat_type'' \<mapsto> PStr ''malware''] ''is_verified'' = None \<and>
    vendor_payloads (stub_env 200) [''threat_type'' \<mapsto> PStr ''malware'']
      = vendor_payloads (stub_env 200)
          [''threat_type'' \<mapsto> PStr ''malware'', ''is_verified'' \<mapsto> PBool False]) \<and>
   ([''threat_type'' \<mapsto> PStr ''malware''] ''validation_count'' = None \<and>
    vendor_payloads (stub_env 200) [''threat_type'' \<mapsto> PStr ''malware'']
      = vendor_payloads (stub_env 200)
          [''threat_type'' \<mapsto> PStr ''malware'', ''validation_count'' \<mapsto> PInt 0]) \<and>
   (\<exists>s q l e. vendor_payloads (stub_env 200) [''threat_type'' \<mapsto> PStr ''malware'']
      = (Inr s, Inr q, Inr l, Inr e)) \<and>
   (cls (create_siem_connector SPLUNK (sample_config SPLUNK)) \<noteq> SIEMConnector \<and>
    (\<exists>b. push_intelligence (stub_env 200) (create_siem_connector SPLUNK (sample_config SPLUNK))
       [''threat_type'' \<mapsto> PStr ''malware''] = Inr b))"
proof -
  let ?d = "[''threat_type'' \<mapsto> PStr ''malware'']"
  let ?c = "create_siem_connector SPLUNK (sample_config SPLUNK)"
  note t = missing_fields_take_defaults [where d = ?d and env = "stub_env 200" and c = ?c]
  have sev: "?d ''severity'' = None" by simp
  have conf: "?d ''confidence_score'' = None" by simp
  have tech: "?d ''mitre_techniques'' = None" by simp
  have ver: "?d ''is_verified'' = None" by simp
  have cnt: "?d ''validation_count'' = None" by simp
  have three: "?d ''severity'' = None \<and> ?d ''confidence_score'' = None \<and>
      ?d ''mitre_techniques'' = None"
    by (intro conjI sev conf tech)
  have adapter: "cls ?c \<noteq> SIEMConnector"
    by (simp add: cls_create connector_map_def)
  note c1 = t [THEN conjunct1, THEN mp, OF sev]
  note c2 = t [THEN conjunct2, THEN conjunct1, THEN mp, OF conf]
  note c3 = t [THEN conjunct2, THEN conjunct2, THEN conjunct1, THEN mp, OF tech]
  note c4 = t [THEN conjunct2, THEN conjunct2, THEN conjunct2, THEN conjunct1, THEN mp, OF ver]
  note c5 = t [THEN conjunct2, THEN conjunct2, THEN conjunct2, THEN conjunct2, THEN conjunct1,
      THEN mp, OF cnt]
  note c6 = t [THEN conjunct2, THEN conjunct2, THEN conjunct2, THEN conjunct2, THEN conjunct2,
      THEN conjunct1, THEN mp, OF three]
  note c7 = t [THEN conjunct2, THEN conjunct2, THEN conjunct2, THEN conjunct2, THEN conjunct2,
      THEN conjunct2, THEN mp, OF adapter]
  show ?thesis
    by (intro conjI sev conf tech ver cnt adapter c1 c2 c3 c4 c5 c6 c7)
qed

section \<open>The registry, and a broadcast to two connectors\<close>

text \<open>The registry stays a dictionary under the additions and removals of connectors.\<close>

lemma is_dict_empty: "is_dict []"
  by (simp add: is_dict_def)

lemma is_dict_add: "is_dict connectors \<Longrightarrow> is_dict (add_siem_connector name c connectors)"
  by (simp add: is_dict_def add_siem_connector_def distinct_update)

lemma is_dict_remove: "is_dict connectors \<Longrightarrow> is_dict (remove_siem_connector name connectors)"
  by (simp add: is_dict_def remove_siem_connector_def distinct_delete)

lemma remove_absent: "name \<notin> set (map fst (remove_siem_connector name connectors))"
  using delete_notin_dom [of name connectors]
  by (simp add: remove_siem_connector_def)

text \<open>
  With a transport that answers by URL, the push of a Splunk connector on a record with
  integer severity and confidence succeeds exactly when its collector URL answers 200.
\<close>

lemma splunk_push_status:
  "http_send env = (\<lambda>request. Inr \<lparr>status_code = status_of (req_url request), response_text = []\<rparr>)
   \<Longrightarrow> cls c = SplunkConnector \<Longrightarrow> d ''severity'' = Some (PInt sev) \<Longrightarrow>
   d ''confidence_score'' = Some (PInt conf) \<Longrightarrow>
   push_intelligence env c d
     = Inr (status_of (endpoint (config c) @ ''/services/collector/event'') = 200)"
  by (simp add: push_intelligence_def splunk_push_intelligence_def splunk_push_body_def
      splunk_event_def session_send_def dict_get_def map_severity_int map_confidence_int
      and_then_def except_false_def)

text \<open>
  A connector that is accepted and one that is rejected with status 500: the result map
  is \<open>a\<close> true, \<open>b\<close> false, one success out of two.
\<close>

lemma example_scenario:
  "broadcast_intelligence (exceptions_only (push_intelligence a_accepts))
     (add_siem_connector ''b'' connector_b (add_siem_connector ''a'' connector_a []))
     sample_intelligence None
     = Inr [(''a'', Value True), (''b'', Value False)] \<and>
   success_count [(''a'', Value True), (''b'', Value False)] = 1 \<and>
   total_count [(''a'', Value True), (''b'', Value False)] = 2"
proof -
  have transport: "http_send a_accepts =
      (\<lambda>request. Inr \<lparr>status_code =
          (if req_url request = ''https://a/services/collector/event'' then 200 else 500),
        response_text = []\<rparr>)"
    by (simp add: a_accepts_def url_env_def)
  have sev: "sample_intelligence ''severity'' = Some (PInt 8)"
    by (simp add: sample_intelligence_def)
  have conf: "sample_intelligence ''confidence_score'' = Some (PInt 85)"
    by (simp add: sample_intelligence_def)
  have ca: "cls connector_a = SplunkConnector"
    by (simp add: connector_a_def cls_create connector_map_def)
  have cb: "cls connector_b = SplunkConnector"
    by (simp add: connector_b_def cls_create connector_map_def)
  have ea: "endpoint (config connector_a) = ''https://a''"
    by (simp add: connector_a_def create_siem_connector_def new_connector_def Let_def)
  have eb: "endpoint (config connector_b) = ''https://b''"
    by (simp add: connector_b_def create_siem_connector_def new_connector_def Let_def)
  have pa: "push_intelligence a_accepts connector_a sample_intelligence = Inr True"
    using splunk_push_status [OF transport ca sev conf] by (simp add: ea)
  have pb: "push_intelligence a_accepts connector_b sample_intelligence = Inr False"
    using splunk_push_status [OF transport cb sev conf] by (simp add: eb)
  have "broadcast_intelligence (exceptions_only (push_intelligence a_accepts))
     (add_siem_connector ''b'' connector_b (add_siem_connector ''a'' connector_a []))
     sample_intelligence None = Inr [(''a'', Value True), (''b'', Value False)]"
    by (simp add: broadcast_exceptions_only is_dict_def target_connectors_def
        add_siem_connector_def pa pb)
  then show ?thesis
    by (simp add: success_count_def total_count_def)
qed

end
